theory Spec2Isabelle
  imports Main "HOL-Library.Sublist" "HOL-Library.Log_Nat" "HOL-Library.AList"
    "HOL-Library.Multiset"
begin

section \<open>Python strings\<close>

text \<open>
  A Python \<open>str\<close> is modelled as a \<open>string\<close> (a list of 8-bit characters).  The model
  covers ASCII text: \<open>lower\<close> and \<open>upper\<close> change the ASCII letters only, and the
  whitespace removed by \<open>strip\<close> is Python's ASCII whitespace (codes 9 to 13, 28 to 31
  and 32).
\<close>

definition ascii_uppercase :: string where
  "ascii_uppercase = ''ABCDEFGHIJKLMNOPQRSTUVWXYZ''"

definition ascii_lowercase :: string where
  "ascii_lowercase = ''abcdefghijklmnopqrstuvwxyz''"

definition lower_char :: "char \<Rightarrow> char" where
  "lower_char c = (case map_of (zip ascii_uppercase ascii_lowercase) c of
                     Some d \<Rightarrow> d | None \<Rightarrow> c)"

definition upper_char :: "char \<Rightarrow> char" where
  "upper_char c = (case map_of (zip ascii_lowercase ascii_uppercase) c of
                     Some d \<Rightarrow> d | None \<Rightarrow> c)"

text \<open>\<open>s.lower()\<close> and \<open>s.upper()\<close>.\<close>

definition py_lower :: "string \<Rightarrow> string" where
  "py_lower s = map lower_char s"

definition py_upper :: "string \<Rightarrow> string" where
  "py_upper s = map upper_char s"

text \<open>\<open>sub in s\<close>: \<open>sub\<close> occurs in \<open>s\<close> as a contiguous run.\<close>

fun contains :: "string \<Rightarrow> string \<Rightarrow> bool" where
  "contains sub [] = (sub = [])"
| "contains sub (c # cs) = (prefix sub (c # cs) \<or> contains sub cs)"

text \<open>\<open>c.isspace()\<close> for an ASCII character.\<close>

definition isspace :: "char \<Rightarrow> bool" where
  "isspace c = (of_char c \<in> {9, 10, 11, 12, 13, 28, 29, 30, 31, 32 :: nat})"

text \<open>\<open>s.strip()\<close> and \<open>s.lstrip(chars)\<close>.\<close>

definition py_strip :: "string \<Rightarrow> string" where
  "py_strip s = rev (dropWhile isspace (rev (dropWhile isspace s)))"

definition py_lstrip_chars :: "string \<Rightarrow> string \<Rightarrow> string" where
  "py_lstrip_chars chars s = dropWhile (\<lambda>c. c \<in> set chars) s"

text \<open>\<open>s.split(sep)\<close> for a one-character separator: never an empty list.\<close>

fun py_split :: "char \<Rightarrow> string \<Rightarrow> string list" where
  "py_split sep [] = [[]]"
| "py_split sep (c # cs) =
     (if c = sep then [] # py_split sep cs
      else (case py_split sep cs of
              [] \<Rightarrow> [[c]]
            | w # ws \<Rightarrow> (c # w) # ws))"

text \<open>
  \<open>s.find(c)\<close> and \<open>s.rfind(c)\<close> for a one-character needle: the index of the first
  (last) occurrence, or \<open>-1\<close>.
\<close>

fun py_find :: "char \<Rightarrow> string \<Rightarrow> int" where
  "py_find c [] = - 1"
| "py_find c (d # ds) =
     (if d = c then 0
      else (let i = py_find c ds in if i = - 1 then - 1 else i + 1))"

definition py_rfind :: "char \<Rightarrow> string \<Rightarrow> int" where
  "py_rfind c s =
     (let i = py_find c (rev s) in if i = - 1 then - 1 else int (length s) - 1 - i)"

text \<open>
  The slice \<open>s[i:j]\<close> for indices \<open>0 \<le> i\<close> and \<open>0 \<le> j\<close>; it is empty when
  \<open>j \<le> i\<close>, and indices beyond the end are cut to the length.
\<close>

definition py_slice :: "string \<Rightarrow> int \<Rightarrow> int \<Rightarrow> string" where
  "py_slice s i j = (if j \<le> i then [] else take (nat (j - i)) (drop (nat i) s))"

section \<open>Python floats\<close>

text \<open>
  A Python \<open>float\<close> is an IEEE 754 binary64 number.  The finite ones are modelled by
  the rational they denote.  \<open>fl\<close> rounds a rational to the nearest number with a
  53-bit significand, ties to the even significand, as the literals and \<open>+\<close>, \<open>-\<close> of
  the language do.  Overflow and subnormal numbers are not modelled: the numbers of
  this program stay between \<open>2 ^ 60\<close> and \<open>1 / 2 ^ 60\<close> in magnitude, or are zero.
\<close>

definition pow2 :: "int \<Rightarrow> rat" where
  "pow2 k = (if 0 \<le> k then 2 ^ nat k else 1 / 2 ^ nat (- k))"

text \<open>The exponent \<open>e\<close> with \<open>2 ^ e \<le> x < 2 ^ (e + 1)\<close>, for \<open>0 < x\<close>.\<close>

definition binade :: "rat \<Rightarrow> int" where
  "binade x =
     (let (p, q) = quotient_of x; k = bitlen p - bitlen q
      in if pow2 k \<le> x then k else k - 1)"

definition round_half_even :: "rat \<Rightarrow> int" where
  "round_half_even x =
     (let n = \<lfloor>x\<rfloor>; r = x - of_int n
      in if r < 1 / 2 then n
         else if 1 / 2 < r then n + 1
         else if even n then n else n + 1)"

definition fl :: "rat \<Rightarrow> rat" where
  "fl x =
     (if x = 0 then 0
      else (let ulp = pow2 (binade \<bar>x\<bar> - 52)
            in sgn x * of_int (round_half_even (\<bar>x\<bar> / ulp)) * ulp))"

definition float_add :: "rat \<Rightarrow> rat \<Rightarrow> rat" where
  "float_add a b = fl (a + b)"

definition float_sub :: "rat \<Rightarrow> rat \<Rightarrow> rat" where
  "float_sub a b = fl (a - b)"

section \<open>The confidence estimator (qa\_system.py)\<close>

definition uncertain_phrases :: "string list" where
  "uncertain_phrases =
     [''might'', ''could'', ''possibly'', ''unclear'', ''not specified'', ''not mentioned'']"

text \<open>The loop over the uncertainty phrases: each phrase found takes \<open>0.2\<close> off.\<close>

fun lower_confidence :: "string \<Rightarrow> string list \<Rightarrow> rat \<Rightarrow> rat" where
  "lower_confidence answer_text [] confidence = confidence"
| "lower_confidence answer_text (phrase # phrases) confidence =
     lower_confidence answer_text phrases
       (if contains phrase (py_lower answer_text)
        then float_sub confidence (fl (2 / 10)) else confidence)"

text \<open>
  \<open>GeminiQASystem._estimate_confidence\<close>: an empty answer returns \<open>0.0\<close> at once;
  otherwise the base \<open>0.8\<close> is lowered per phrase, raised by \<open>0.1\<close> for a quotation
  mark or the word "section", and clamped by \<open>max(0.1, min(1.0, confidence))\<close>.
\<close>

definition estimate_confidence :: "string \<Rightarrow> rat" where
  "estimate_confidence answer_text =
     (if answer_text = [] then 0
      else (let confidence = lower_confidence answer_text uncertain_phrases (fl (8 / 10));
                confidence =
                  (if CHR 0x22 \<in> set answer_text \<or> contains ''section'' (py_lower answer_text)
                   then float_add confidence (fl (1 / 10)) else confidence)
            in max (fl (1 / 10)) (min 1 confidence)))"

section \<open>Values of the Python run time\<close>

text \<open>
  The exceptions the modelled code can meet.  \<open>ValueError\<close> and \<open>RuntimeError\<close>
  carry their message, \<open>UnboundLocalError\<close> the name of the local variable read
  before its assignment.
\<close>

datatype py_exception =
    JSONDecodeError
  | TypeError
  | AttributeError
  | ValueError string
  | UnboundLocalError string
  | RuntimeError string

text \<open>
  What \<open>json.loads\<close> returns: \<open>None\<close>, a bool, a number, a string, a list or a dict.
  A dict is an association list with one pair per key, in insertion order.  A number
  is represented by its value.
\<close>

datatype json =
    JNull
  | JBool bool
  | JNum rat
  | JStr string
  | JArr "json list"
  | JObj "(string \<times> json) list"

text \<open>
  \<open>json.loads\<close> is library code: the functions below take it as the parameter
  \<open>loads\<close>, which either raises or returns the decoded value.
\<close>

type_synonym json_decoder = "string \<Rightarrow> py_exception + json"

text \<open>
  \<open>for x in v\<close> over a decoded value: a list yields its elements, a dict its keys, a
  string its characters; anything else raises \<open>TypeError\<close>.
\<close>

fun py_iter :: "json \<Rightarrow> py_exception + json list" where
  "py_iter (JArr xs) = Inr xs"
| "py_iter (JObj kvs) = Inr (map (\<lambda>kv. JStr (fst kv)) kvs)"
| "py_iter (JStr s) = Inr (map (\<lambda>c. JStr [c]) s)"
| "py_iter JNull = Inl TypeError"
| "py_iter (JBool b) = Inl TypeError"
| "py_iter (JNum n) = Inl TypeError"

text \<open>\<open>d.get(key, default)\<close>.\<close>

definition dict_get :: "(string \<times> json) list \<Rightarrow> string \<Rightarrow> json \<Rightarrow> json" where
  "dict_get d key dflt = (case map_of d key of Some v \<Rightarrow> v | None \<Rightarrow> dflt)"

section \<open>The clause extractor (clause\_extractor.py)\<close>

text \<open>
  A clause record is the dict with the five keys \<open>clause_type\<close>, \<open>clause_text\<close>,
  \<open>context\<close>, \<open>importance\<close> and \<open>section\<close>.  Only \<open>clause_text\<close> is known to be a
  string (the parser strips it); the other fields hold whatever the response gave.
\<close>

record clause =
  clause_type :: json
  clause_text :: string
  clause_context :: json
  importance :: json
  clause_section :: json

text \<open>The keys of \<open>self.clause_types\<close>, in the order of the dict.\<close>

definition clause_types :: "string list" where
  "clause_types =
     [''TERMINATION'', ''PAYMENT'', ''INDEMNIFICATION'', ''CONFIDENTIALITY'',
      ''INTELLECTUAL_PROPERTY'', ''FORCE_MAJEURE'', ''GOVERNING_LAW'', ''WARRANTIES'',
      ''LIMITATION_LIABILITY'', ''ASSIGNMENT'', ''AMENDMENT'', ''DELIVERY'']"

text \<open>
  The text handed to \<open>json.loads\<close>: from the first \<open>[\<close> to the last \<open>]\<close> when there is
  such a pair, the whole response otherwise.
\<close>

definition clause_json_str :: "string \<Rightarrow> string" where
  "clause_json_str response_text =
     (let start_idx = py_find CHR ''['' response_text;
          end_idx = py_rfind CHR '']'' response_text + 1
      in if start_idx \<noteq> - 1 \<and> end_idx > start_idx
         then py_slice response_text start_idx end_idx
         else response_text)"

text \<open>
  The loop that validates and cleans the decoded items.  An item that is not a dict
  with the keys \<open>clause_type\<close> and \<open>clause_text\<close> is skipped; \<open>.strip()\<close> on a
  \<open>clause_text\<close> that is not a string raises \<open>AttributeError\<close>; a stripped text of
  at most 20 characters is skipped.
\<close>

fun clean_clauses :: "json list \<Rightarrow> clause list \<Rightarrow> py_exception + clause list" where
  "clean_clauses [] cleaned_clauses = Inr cleaned_clauses"
| "clean_clauses (JObj d # items) cleaned_clauses =
     (if ''clause_type'' \<in> fst ` set d \<and> ''clause_text'' \<in> fst ` set d
      then (case dict_get d ''clause_text'' (JStr []) of
              JStr s \<Rightarrow>
                (let cleaned_clause =
                       \<lparr>clause_type = dict_get d ''clause_type'' (JStr []),
                        clause_text = py_strip s,
                        clause_context = dict_get d ''context'' (JStr []),
                        importance = dict_get d ''importance'' (JStr ''MEDIUM''),
                        clause_section = dict_get d ''section'' (JStr ''Unknown'')\<rparr>
                 in if length (clause_text cleaned_clause) > 20
                    then clean_clauses items (cleaned_clauses @ [cleaned_clause])
                    else clean_clauses items cleaned_clauses)
            | _ \<Rightarrow> Inl AttributeError)
      else clean_clauses items cleaned_clauses)"
| "clean_clauses (_ # items) cleaned_clauses = clean_clauses items cleaned_clauses"

text \<open>The body of the \<open>try\<close> block of \<open>_parse_clause_response\<close>.\<close>

definition parse_clause_try :: "json_decoder \<Rightarrow> string \<Rightarrow> py_exception + clause list" where
  "parse_clause_try loads response_text =
     (case loads (clause_json_str response_text) of
        Inl e \<Rightarrow> Inl e
      | Inr clauses \<Rightarrow>
          (case py_iter clauses of
             Inl e \<Rightarrow> Inl e
           | Inr items \<Rightarrow> clean_clauses items []))"

text \<open>
  \<open>_fallback_clause_parsing\<close>.  The state of the loop over the lines is the list
  \<open>clauses\<close> and \<open>current_clause\<close>, \<open>None\<close> standing for the empty dict.
\<close>

definition find_clause_type :: "string \<Rightarrow> string option" where
  "find_clause_type line =
     find (\<lambda>t. contains (py_lower t) (py_lower line) \<and> CHR '':'' \<in> set line) clause_types"

definition fallback_clause_step ::
  "clause list \<times> clause option \<Rightarrow> string \<Rightarrow> clause list \<times> clause option" where
  "fallback_clause_step st raw_line =
     (let line = py_strip raw_line;
          (clauses, current_clause) =
            (case find_clause_type line of
               Some t \<Rightarrow>
                 ((case snd st of Some c \<Rightarrow> fst st @ [c] | None \<Rightarrow> fst st),
                  Some \<lparr>clause_type = JStr t, clause_text = [], clause_context = JStr [],
                        importance = JStr ''MEDIUM'', clause_section = JStr ''Unknown''\<rparr>)
             | None \<Rightarrow> st)
      in (case current_clause of
            Some c \<Rightarrow>
              if line \<noteq> []
                 \<and> \<not> list_ex (\<lambda>keyword. contains keyword (py_lower line))
                       [''type:'', ''context:'', ''importance:'']
                 \<and> length line > 20
              then (clauses, Some (c\<lparr>clause_text := line\<rparr>))
              else (clauses, Some c)
          | None \<Rightarrow> (clauses, None)))"

definition fallback_clause_parsing :: "string \<Rightarrow> clause list" where
  "fallback_clause_parsing response_text =
     (let (clauses, current_clause) =
            foldl fallback_clause_step ([], None) (py_split CHR 10 response_text)
      in (case current_clause of Some c \<Rightarrow> clauses @ [c] | None \<Rightarrow> clauses))"

text \<open>
  \<open>_parse_clause_response\<close>: a \<open>JSONDecodeError\<close> of the \<open>try\<close> block goes to the
  fallback, every other exception gives the empty list.
\<close>

definition parse_clause_response :: "json_decoder \<Rightarrow> string \<Rightarrow> py_exception + clause list" where
  "parse_clause_response loads response_text =
     (case parse_clause_try loads response_text of
        Inr cleaned_clauses \<Rightarrow> Inr cleaned_clauses
      | Inl JSONDecodeError \<Rightarrow> Inr (fallback_clause_parsing response_text)
      | Inl e \<Rightarrow> Inr [])"


text \<open>
  Decoders for concrete runs: \<open>loads_of table\<close> decodes the texts of \<open>table\<close> to the
  values beside them and rejects every other text with \<open>JSONDecodeError\<close>.  It stands
  for \<open>json.loads\<close> on the texts of the table and on texts that are not JSON.
\<close>

definition loads_of :: "(string \<times> json) list \<Rightarrow> json_decoder" where
  "loads_of table s = (case map_of table s of Some v \<Rightarrow> Inr v | None \<Rightarrow> Inl JSONDecodeError)"

text \<open>
  The claim's words for the strict path: an item is usable when it is a dict with the
  keys \<open>clause_type\<close> and \<open>clause_text\<close> whose \<open>clause_text\<close> is a string that,
  stripped, is longer than 20 characters; \<open>cleaned_clause\<close> is the record made from it.
\<close>

definition item_dict :: "json \<Rightarrow> (string \<times> json) list" where
  "item_dict j = (case j of JObj d \<Rightarrow> d | _ \<Rightarrow> [])"

definition item_text :: "json \<Rightarrow> string" where
  "item_text j =
     (case dict_get (item_dict j) ''clause_text'' (JStr []) of
        JStr s \<Rightarrow> py_strip s | _ \<Rightarrow> [])"

definition usable_clause :: "json \<Rightarrow> bool" where
  "usable_clause j =
     (''clause_type'' \<in> fst ` set (item_dict j) \<and> ''clause_text'' \<in> fst ` set (item_dict j)
      \<and> length (item_text j) > 20)"

definition cleaned_clause :: "json \<Rightarrow> clause" where
  "cleaned_clause j =
     \<lparr>clause_type = dict_get (item_dict j) ''clause_type'' (JStr []),
      clause_text = item_text j,
      clause_context = dict_get (item_dict j) ''context'' (JStr []),
      importance = dict_get (item_dict j) ''importance'' (JStr ''MEDIUM''),
      clause_section = dict_get (item_dict j) ''section'' (JStr ''Unknown'')\<rparr>"

text \<open>
  An item whose \<open>clause_text\<close> cannot be stripped: a dict with both keys whose
  \<open>clause_text\<close> is not a string.  One such item makes the \<open>try\<close> block raise
  \<open>AttributeError\<close>, and the handler then returns the empty list.
\<close>

definition malformed_text :: "json \<Rightarrow> bool" where
  "malformed_text j =
     (''clause_type'' \<in> fst ` set (item_dict j) \<and> ''clause_text'' \<in> fst ` set (item_dict j)
      \<and> (case dict_get (item_dict j) ''clause_text'' (JStr []) of
            JStr s \<Rightarrow> False | _ \<Rightarrow> True))"

text \<open>
  A response of two items, the first well-formed, the second with a number as its
  \<open>clause_text\<close>.
\<close>

definition mixed_response :: string where
  \<open>mixed_response = ''[{"clause_type":"PAYMENT","clause_text":"Pay within 30 days of invoice."},{"clause_type":"PAYMENT","clause_text":5}]''\<close>

definition mixed_decoded :: json where
  "mixed_decoded =
     JArr [JObj [(''clause_type'', JStr ''PAYMENT''),
                 (''clause_text'', JStr ''Pay within 30 days of invoice.'')],
           JObj [(''clause_type'', JStr ''PAYMENT''), (''clause_text'', JNum 5)]]"

text \<open>The clause types of the class, as a predicate on records.\<close>

definition known_type :: "clause \<Rightarrow> bool" where
  "known_type c = (clause_type c \<in> JStr ` set clause_types)"

text \<open>
  Concrete responses.  The first is a JSON array of one well-formed clause; the second
  names a clause type that is not among the twelve of the class (the prompt builder
  accepts such types from the caller).
\<close>

definition payment_response :: string where
  \<open>payment_response = ''[{"clause_type":"PAYMENT","clause_text":"Pay within 30 days of invoice.","context":"payment term","importance":"HIGH","section":"3.1"}]''\<close>

definition payment_decoded :: json where
  "payment_decoded =
     JArr [JObj [(''clause_type'', JStr ''PAYMENT''),
                 (''clause_text'', JStr ''Pay within 30 days of invoice.''),
                 (''context'', JStr ''payment term''),
                 (''importance'', JStr ''HIGH''),
                 (''section'', JStr ''3.1'')]]"

definition penalty_response :: string where
  \<open>penalty_response = ''[{"clause_type":"PENALTY","clause_text":"A late fee of 5% applies after 30 days."}]''\<close>

definition penalty_decoded :: json where
  "penalty_decoded =
     JArr [JObj [(''clause_type'', JStr ''PENALTY''),
                 (''clause_text'', JStr ''A late fee of 5% applies after 30 days.'')]]"

section \<open>The entity extractor (entity\_extractor.py)\<close>

text \<open>The keys of \<open>self.entity_categories\<close>, in the order of the dict.\<close>

definition entity_categories :: "string list" where
  "entity_categories =
     [''PERSONS'', ''ORGANIZATIONS'', ''LOCATIONS'', ''DATES'', ''MONETARY_VALUES'',
      ''LEGAL_REFERENCES'', ''AGREEMENTS'', ''LEGAL_CONCEPTS'']"

text \<open>An entity map: the dict from category to entity list, in insertion order.\<close>

type_synonym entity_map = "(string \<times> string list) list"

text \<open>
  \<open>list(set(xs))\<close> lists each member of \<open>xs\<close> once, in an order the language does not
  fix (string hashes differ from run to run).  The parser takes the listing as the
  parameter \<open>set_list\<close>; \<open>lists_set\<close> says what can be relied on.
\<close>

definition lists_set :: "(string list \<Rightarrow> string list) \<Rightarrow> bool" where
  "lists_set set_list = (\<forall>xs. distinct (set_list xs) \<and> set (set_list xs) = set xs)"

text \<open>The truth value of a decoded value, as \<open>if entity\<close> tests it.\<close>

fun truthy :: "json \<Rightarrow> bool" where
  "truthy JNull = False"
| "truthy (JBool b) = b"
| "truthy (JNum n) = (n \<noteq> 0)"
| "truthy (JStr s) = (s \<noteq> [])"
| "truthy (JArr xs) = (xs \<noteq> [])"
| "truthy (JObj d) = (d \<noteq> [])"

text \<open>
  The list comprehension \<open>[entity.strip() for entity in entity_list if entity and
  len(entity.strip()) > 1]\<close>: a falsy element is skipped, \<open>.strip()\<close> on a truthy
  element that is not a string raises \<open>AttributeError\<close>.
\<close>

fun stripped_entities :: "json list \<Rightarrow> py_exception + string list" where
  "stripped_entities [] = Inr []"
| "stripped_entities (entity # entity_list) =
     (if truthy entity
      then (case entity of
              JStr s \<Rightarrow>
                (case stripped_entities entity_list of
                   Inl e \<Rightarrow> Inl e
                 | Inr rest \<Rightarrow> Inr (if length (py_strip s) > 1 then py_strip s # rest else rest))
            | _ \<Rightarrow> Inl AttributeError)
      else stripped_entities entity_list)"

text \<open>
  The loop over \<open>entities.items()\<close>: a value that is a list is cleaned, listed without
  duplicates and cut to 20 entries, and kept under its category when not empty.
\<close>

fun clean_entities ::
  "(string list \<Rightarrow> string list) \<Rightarrow> (string \<times> json) list \<Rightarrow> entity_map
     \<Rightarrow> py_exception + entity_map" where
  "clean_entities set_list [] cleaned_entities = Inr cleaned_entities"
| "clean_entities set_list ((category, JArr entity_list) # items) cleaned_entities =
     (case stripped_entities entity_list of
        Inl e \<Rightarrow> Inl e
      | Inr stripped \<Rightarrow>
          (let clean_list = take 20 (set_list stripped)
           in if clean_list \<noteq> []
              then clean_entities set_list items
                     (AList.update category clean_list cleaned_entities)
              else clean_entities set_list items cleaned_entities))"
| "clean_entities set_list ((category, _) # items) cleaned_entities =
     clean_entities set_list items cleaned_entities"

text \<open>
  The text handed to \<open>json.loads\<close>.  \<open>end_idx\<close> is \<open>rfind + 1\<close> and so never \<open>-1\<close>:
  the slice is taken whenever the response has a \<open>{\<close>.
\<close>

definition entity_json_str :: "string \<Rightarrow> string" where
  "entity_json_str response_text =
     (let start_idx = py_find CHR ''{'' response_text;
          end_idx = py_rfind CHR ''}'' response_text + 1
      in if start_idx \<noteq> - 1 \<and> end_idx \<noteq> - 1
         then py_slice response_text start_idx end_idx
         else response_text)"

text \<open>\<open>entities.items()\<close>: only a dict has the method.\<close>

fun dict_items :: "json \<Rightarrow> py_exception + (string \<times> json) list" where
  "dict_items (JObj d) = Inr d"
| "dict_items JNull = Inl AttributeError"
| "dict_items (JBool b) = Inl AttributeError"
| "dict_items (JNum n) = Inl AttributeError"
| "dict_items (JStr s) = Inl AttributeError"
| "dict_items (JArr xs) = Inl AttributeError"

text \<open>The body of the \<open>try\<close> block of \<open>_parse_entity_response\<close>.\<close>

definition parse_entity_try ::
  "(string list \<Rightarrow> string list) \<Rightarrow> json_decoder \<Rightarrow> string \<Rightarrow> py_exception + entity_map" where
  "parse_entity_try set_list loads response_text =
     (case loads (entity_json_str response_text) of
        Inl e \<Rightarrow> Inl e
      | Inr entities \<Rightarrow>
          (case dict_items entities of
             Inl e \<Rightarrow> Inl e
           | Inr items \<Rightarrow> clean_entities set_list items []))"

text \<open>
  \<open>_fallback_entity_parsing\<close>.  The state of the loop over the lines is the dict
  \<open>entities\<close> and \<open>current_category\<close>.
\<close>

definition find_category :: "string \<Rightarrow> string option" where
  "find_category line =
     find (\<lambda>category. contains category (py_upper line) \<and> CHR '':'' \<in> set line)
       entity_categories"

text \<open>
  \<open>str(i)\<close> for a natural number, and the prefixes \<open>f"{i}."\<close> for \<open>i\<close> in
  \<open>range(1, 20)\<close>.
\<close>

fun str_of_nat :: "nat \<Rightarrow> string" where
  "str_of_nat n =
     (if n < 10 then [char_of (48 + n)]
      else str_of_nat (n div 10) @ [char_of (48 + n mod 10)])"

definition numbered_prefixes :: "string list" where
  "numbered_prefixes = map (\<lambda>i. str_of_nat i @ ''.'') [1..<20]"

definition fallback_entity_step ::
  "entity_map \<times> string option \<Rightarrow> string \<Rightarrow> entity_map \<times> string option" where
  "fallback_entity_step st raw_line =
     (let line = py_strip raw_line;
          (entities, current_category) =
            (case find_category line of
               Some category \<Rightarrow> (AList.update category [] (fst st), Some category)
             | None \<Rightarrow> st)
      in (case current_category of
            Some cur \<Rightarrow>
              if prefix ''-'' line \<or> prefix ''*'' line
                 \<or> list_ex (\<lambda>p. prefix p line) numbered_prefixes
              then (let entity = py_strip (py_lstrip_chars ''-*0123456789. '' line)
                    in if entity \<noteq> [] \<and> length entity > 1
                       then (AList.map_entry cur (\<lambda>l. l @ [entity]) entities, Some cur)
                       else (entities, Some cur))
              else (entities, Some cur)
          | None \<Rightarrow> (entities, None)))"

definition fallback_entity_parsing :: "string \<Rightarrow> entity_map" where
  "fallback_entity_parsing response_text =
     fst (foldl fallback_entity_step ([], None) (py_split CHR 10 response_text))"

text \<open>
  \<open>_parse_entity_response\<close>: a \<open>JSONDecodeError\<close> of the \<open>try\<close> block goes to the
  fallback, every other exception gives the empty dict.
\<close>

definition parse_entity_response ::
  "(string list \<Rightarrow> string list) \<Rightarrow> json_decoder \<Rightarrow> string \<Rightarrow> py_exception + entity_map" where
  "parse_entity_response set_list loads response_text =
     (case parse_entity_try set_list loads response_text of
        Inr cleaned_entities \<Rightarrow> Inr cleaned_entities
      | Inl JSONDecodeError \<Rightarrow> Inr (fallback_entity_parsing response_text)
      | Inl e \<Rightarrow> Inr [])"

text \<open>A string with no whitespace at either end.\<close>

definition trimmed :: "string \<Rightarrow> bool" where
  "trimmed s = (py_strip s = s)"

text \<open>What claim C8 asks of the entity list of one category.\<close>

definition clean_entity_list :: "string list \<Rightarrow> bool" where
  "clean_entity_list l =
     (distinct l \<and> list_all (\<lambda>e. trimmed e \<and> length e > 1) l \<and> length l \<le> 20)"

text \<open>Every entity of every category is trimmed and longer than one character.\<close>

definition trimmed_lists :: "entity_map \<Rightarrow> bool" where
  "trimmed_lists m = list_all (\<lambda>kv. list_all (\<lambda>e. trimmed e \<and> length e > 1) (snd kv)) m"

section \<open>The highlighter (clause\_extractor.py)\<close>

text \<open>The colour of each clause type, \<open>color_map\<close>.\<close>

definition color_map :: "(string \<times> string) list" where
  "color_map =
     [(''TERMINATION'', ''#ffcccc''), (''PAYMENT'', ''#ccffcc''),
      (''INDEMNIFICATION'', ''#ffcc99''), (''CONFIDENTIALITY'', ''#ccccff''),
      (''INTELLECTUAL_PROPERTY'', ''#ffccff''), (''FORCE_MAJEURE'', ''#ffffcc''),
      (''GOVERNING_LAW'', ''#ccffff''), (''WARRANTIES'', ''#f0ccff''),
      (''LIMITATION_LIABILITY'', ''#ffccdd''), (''ASSIGNMENT'', ''#ccffdd''),
      (''AMENDMENT'', ''#ddccff''), (''DELIVERY'', ''#ddffcc'')]"

text \<open>
  \<open>color_map.get(clause_type, '#f0f0f0')\<close>: a list or a dict is not hashable and
  raises \<open>TypeError\<close>; any other value that is not a key gives the default.
\<close>

fun color_of :: "json \<Rightarrow> py_exception + string" where
  "color_of (JStr t) = Inr (case map_of color_map t of Some c \<Rightarrow> c | None \<Rightarrow> ''#f0f0f0'')"
| "color_of (JArr xs) = Inl TypeError"
| "color_of (JObj d) = Inl TypeError"
| "color_of JNull = Inr ''#f0f0f0''"
| "color_of (JBool b) = Inr ''#f0f0f0''"
| "color_of (JNum n) = Inr ''#f0f0f0''"

text \<open>
  A value inside an f-string: a string stands for itself; how any other value prints
  is the parameter \<open>fmt\<close>.
\<close>

definition py_format :: "(json \<Rightarrow> string) \<Rightarrow> json \<Rightarrow> string" where
  "py_format fmt v = (case v of JStr s \<Rightarrow> s | _ \<Rightarrow> fmt v)"

definition highlight_span :: "(json \<Rightarrow> string) \<Rightarrow> string \<Rightarrow> clause \<Rightarrow> string \<Rightarrow> string" where
  \<open>highlight_span fmt color clause text =
     ''<span style="background-color: '' @ color
     @ ''; padding: 2px; border-left: 3px solid #333; margin: 2px;" title="''
     @ py_format fmt (clause_type clause) @ '': '' @ py_format fmt (clause_context clause)
     @ ''">'' @ text @ ''</span>''\<close>

text \<open>\<open>s.replace(old, new, 1)\<close>: the leftmost occurrence of \<open>old\<close> is replaced.\<close>

fun replace_first :: "string \<Rightarrow> string \<Rightarrow> string \<Rightarrow> string" where
  "replace_first old new [] = (if old = [] then new else [])"
| "replace_first old new (c # cs) =
     (if prefix old (c # cs) then new @ drop (length old) (c # cs)
      else c # replace_first old new cs)"

text \<open>
  \<open>sorted(clauses, key=lambda x: len(x.get('clause_text', '')), reverse=True)\<close>:
  longest text first, clauses of equal length in their original order.
\<close>

definition sorted_clauses :: "clause list \<Rightarrow> clause list" where
  "sorted_clauses clauses = sort_key (\<lambda>x. - int (length (clause_text x))) clauses"

text \<open>One round of the loop of \<open>highlight_clauses_in_text\<close>.\<close>

definition highlight_step ::
  "(json \<Rightarrow> string) \<Rightarrow> string \<Rightarrow> clause \<Rightarrow> py_exception + string" where
  "highlight_step fmt highlighted_text clause =
     (let text = py_strip (clause_text clause)
      in if text \<noteq> [] \<and> contains text highlighted_text
         then (case color_of (clause_type clause) of
                 Inl e \<Rightarrow> Inl e
               | Inr color \<Rightarrow>
                   Inr (replace_first text (highlight_span fmt color clause text)
                          highlighted_text))
         else Inr highlighted_text)"

fun highlight_loop ::
  "(json \<Rightarrow> string) \<Rightarrow> string \<Rightarrow> clause list \<Rightarrow> py_exception + string" where
  "highlight_loop fmt highlighted_text [] = Inr highlighted_text"
| "highlight_loop fmt highlighted_text (clause # clauses) =
     (case highlight_step fmt highlighted_text clause of
        Inl e \<Rightarrow> Inl e
      | Inr highlighted_text' \<Rightarrow> highlight_loop fmt highlighted_text' clauses)"

text \<open>\<open>highlight_clauses_in_text\<close>: any exception gives the original text back.\<close>

definition highlight_clauses_in_text :: "(json \<Rightarrow> string) \<Rightarrow> string \<Rightarrow> clause list \<Rightarrow> string" where
  "highlight_clauses_in_text fmt text clauses =
     (case highlight_loop fmt text (sorted_clauses clauses) of
        Inl e \<Rightarrow> text
      | Inr highlighted_text \<Rightarrow> highlighted_text)"






text \<open>A document of two sentences, and a clause for the second.\<close>

definition nda_document :: string where
  "nda_document = ''Pay within 30 days of invoice. Confidential info must not be shared.''"




section \<open>The pipeline (enhanced\_processor.py, document\_processor.py)\<close>

subsection \<open>Payloads of the stages\<close>

text \<open>
  The dict an extractor returns; its \<open>entities\<close> and \<open>tables\<close> entries, which the
  pipeline never reads, are left out.
\<close>

record text_data =
  extracted_text :: string
  pages :: nat
  confidence :: rat

record summary_data =
  summary_text :: string
  summary_type :: string
  original_length :: nat
  summary_length :: nat
  compression_ratio :: rat
  key_points :: "string list"

record entity_data =
  found_entities :: entity_map
  extraction_type :: string
  total_entities :: nat
  categories_found :: "string list"
  text_length :: nat

record clause_data =
  found_clauses :: "clause list"
  total_clauses_found :: nat
  clause_types_searched :: "string list"
  document_length :: nat

record risk_data =
  high_risks :: "string list"
  medium_risks :: "string list"
  recommendations :: "string list"
  compliance_notes :: "string list"

record relationship_data =
  found_relationships :: entity_map
  analysis_type :: string
  total_relationships :: nat

record comparison =
  comparison_text :: string
  doc1_name :: string
  doc2_name :: string
  analysis_date :: string

text \<open>
  The dict \<open>analysis_options\<close>, its flags being booleans: \<open>None\<close> stands for a key
  that is absent, so that \<open>analysis_options.get(key, default)\<close> is
  \<open>option_get default\<close>.
\<close>

record options =
  opt_extract_text :: "bool option"
  opt_generate_summary :: "bool option"
  opt_extract_entities :: "bool option"
  opt_extract_clauses :: "bool option"
  opt_generate_qa_suggestions :: "bool option"
  opt_generate_bullet_points :: "bool option"
  opt_analyze_risks :: "bool option"
  opt_extract_relationships :: "bool option"
  opt_compare_documents :: "bool option"
  opt_summary_type :: "string option"
  opt_entity_extraction_type :: "string option"
  opt_clause_types :: "string list option"

definition option_get :: "'a \<Rightarrow> 'a option \<Rightarrow> 'a" where
  "option_get dflt v = (case v of None \<Rightarrow> dflt | Some x \<Rightarrow> x)"

text \<open>The options used when the caller passes \<open>None\<close>, for each of the two processors.\<close>

definition default_options :: options where
  "default_options =
     \<lparr>opt_extract_text = Some True, opt_generate_summary = Some True,
      opt_extract_entities = Some True, opt_extract_clauses = None,
      opt_generate_qa_suggestions = None, opt_generate_bullet_points = Some True,
      opt_analyze_risks = Some True, opt_extract_relationships = None,
      opt_compare_documents = None, opt_summary_type = Some ''comprehensive'',
      opt_entity_extraction_type = Some ''comprehensive'', opt_clause_types = None\<rparr>"

definition enhanced_default_options :: options where
  "enhanced_default_options =
     default_options\<lparr>opt_extract_clauses := Some True,
                     opt_generate_qa_suggestions := Some True\<rparr>"

text \<open>
  The dict \<open>results\<close> of one document; \<open>None\<close> stands for a key that is absent.
  \<open>status\<close> is one of the strings \<open>processing\<close>, \<open>completed\<close> and \<open>failed\<close>.
\<close>

record results =
  file_path :: string
  file_name :: "string option"
  analysis_options :: options
  status :: string
  error :: "string option"
  text_extraction :: "text_data option"
  summary :: "summary_data option"
  entities :: "entity_data option"
  clauses :: "clause_data option"
  highlighted_text :: "string option"
  clause_summary :: "json option"
  suggested_questions :: "string list option"
  qa_ready_text :: "string option"
  bullet_points :: "string list option"
  risk_analysis :: "risk_data option"
  relationships :: "relationship_data option"

subsection \<open>The outside world\<close>

text \<open>
  What the file system, the extractors and the generative model do is given by an
  environment.  \<open>entity_response\<close>, \<open>clause_response\<close>, \<open>relationship_response\<close> and
  \<open>compare_response\<close> are the text of the model's answer to the prompt built from
  their arguments, or the exception raised by the call.  \<open>summarize_try\<close>,
  \<open>suggested_questions_try\<close>, \<open>bullet_points_try\<close> and \<open>legal_risks_try\<close> are the
  outcome of the whole \<open>try\<close> block of the method of that name (prompt, call and
  reading of the answer): the value it returns, or the exception it raises.
  \<open>clause_summary_of\<close> is the dict \<open>generate_clause_summary\<close> returns, which it does
  on every path.
\<close>

record env =
  path_exists :: "string \<Rightarrow> bool"
  getsize :: "string \<Rightarrow> nat"
  extract_document_text :: "string \<Rightarrow> text_data"
  summarize_try :: "string \<Rightarrow> string \<Rightarrow> py_exception + summary_data"
  entity_response :: "string \<Rightarrow> string \<Rightarrow> py_exception + string"
  clause_response :: "string \<Rightarrow> string list \<Rightarrow> py_exception + string"
  relationship_response :: "string \<Rightarrow> py_exception + string"
  suggested_questions_try :: "string \<Rightarrow> py_exception + string list"
  bullet_points_try :: "string \<Rightarrow> py_exception + string list"
  legal_risks_try :: "string \<Rightarrow> py_exception + risk_data"
  compare_response :: "string \<Rightarrow> string \<Rightarrow> string \<Rightarrow> string \<Rightarrow> py_exception + string"
  current_timestamp :: string
  json_loads :: json_decoder
  list_of_set :: "string list \<Rightarrow> string list"
  format_value :: "json \<Rightarrow> string"
  clause_summary_of :: "clause list \<Rightarrow> json"

subsection \<open>The components, each with its own handler\<close>

text \<open>\<open>GeminiSummarizer.summarize_document\<close>.\<close>

definition summarize_document :: "env \<Rightarrow> string \<Rightarrow> string \<Rightarrow> summary_data" where
  "summarize_document env text stype =
     (case summarize_try env text stype of
        Inr summary_data \<Rightarrow> summary_data
      | Inl e \<Rightarrow>
          \<lparr>summary_text = ''Error generating summary'', summary_type = stype,
           original_length = length text, summary_length = 0, compression_ratio = 0,
           key_points = []\<rparr>)"

text \<open>\<open>GeminiSummarizer.generate_bullet_points\<close> and \<open>analyze_legal_risks\<close>.\<close>

definition generate_bullet_points :: "env \<Rightarrow> string \<Rightarrow> string list" where
  "generate_bullet_points env text =
     (case bullet_points_try env text of Inr points \<Rightarrow> points | Inl e \<Rightarrow> [])"

definition analyze_legal_risks :: "env \<Rightarrow> string \<Rightarrow> risk_data" where
  "analyze_legal_risks env text =
     (case legal_risks_try env text of
        Inr analysis \<Rightarrow> analysis
      | Inl e \<Rightarrow>
          \<lparr>high_risks = [], medium_risks = [], recommendations = [], compliance_notes = []\<rparr>)"

text \<open>\<open>GeminiQASystem.get_suggested_questions\<close>.\<close>

definition default_questions :: "string list" where
  "default_questions =
     [''Who are the parties to this agreement?'',
      ''What are the main terms and conditions?'',
      ''What are the payment obligations?'',
      ''How can this agreement be terminated?'',
      ''What are the key dates and deadlines?'',
      ''What law governs this agreement?'']"

definition get_suggested_questions :: "env \<Rightarrow> string \<Rightarrow> string list" where
  "get_suggested_questions env document_text =
     (case suggested_questions_try env document_text of
        Inr questions \<Rightarrow> questions
      | Inl e \<Rightarrow> default_questions)"

text \<open>\<open>GeminiEntityExtractor.extract_entities\<close> and \<open>extract_legal_relationships\<close>.\<close>

definition extract_entities :: "env \<Rightarrow> string \<Rightarrow> string \<Rightarrow> entity_data" where
  "extract_entities env text etype =
     (let failed_data =
            \<lparr>found_entities = [], extraction_type = etype, total_entities = 0,
             categories_found = [], text_length = length text\<rparr>
      in case entity_response env text etype of
           Inl e \<Rightarrow> failed_data
         | Inr response_text \<Rightarrow>
             (case parse_entity_response (list_of_set env) (json_loads env) response_text of
                Inl e \<Rightarrow> failed_data
              | Inr found \<Rightarrow>
                  \<lparr>found_entities = found, extraction_type = etype,
                   total_entities = sum_list (map (\<lambda>kv. length (snd kv)) found),
                   categories_found = map fst found, text_length = length text\<rparr>))"

definition extract_legal_relationships :: "env \<Rightarrow> string \<Rightarrow> relationship_data" where
  "extract_legal_relationships env text =
     (let failed_data =
            \<lparr>found_relationships = [], analysis_type = ''legal_relationships'',
             total_relationships = 0\<rparr>
      in case relationship_response env text of
           Inl e \<Rightarrow> failed_data
         | Inr response_text \<Rightarrow>
             (case parse_entity_response (list_of_set env) (json_loads env) response_text of
                Inl e \<Rightarrow> failed_data
              | Inr found \<Rightarrow>
                  \<lparr>found_relationships = found, analysis_type = ''legal_relationships'',
                   total_relationships = sum_list (map (\<lambda>kv. length (snd kv)) found)\<rparr>))"

text \<open>\<open>GeminiClauseExtractor.extract_clauses\<close>.\<close>

definition extract_clauses :: "env \<Rightarrow> string \<Rightarrow> string list option \<Rightarrow> clause_data" where
  "extract_clauses env text types =
     (let searched = (case types of None \<Rightarrow> clause_types | Some ts \<Rightarrow> ts);
          failed_data =
            \<lparr>found_clauses = [], total_clauses_found = 0, clause_types_searched = searched,
             document_length = length text\<rparr>
      in case clause_response env text searched of
           Inl e \<Rightarrow> failed_data
         | Inr response_text \<Rightarrow>
             (case parse_clause_response (json_loads env) response_text of
                Inl e \<Rightarrow> failed_data
              | Inr extracted \<Rightarrow>
                  \<lparr>found_clauses = extracted, total_clauses_found = length extracted,
                   clause_types_searched = searched, document_length = length text\<rparr>))"

subsection \<open>Processing one document\<close>

text \<open>
  \<open>_validate_file\<close>: the file must exist and be no larger than \<open>MAX_FILE_SIZE_MB\<close>
  (20) megabytes; an unsupported suffix only logs a warning.
\<close>

definition validate_file :: "env \<Rightarrow> string \<Rightarrow> bool" where
  "validate_file env path =
     (if \<not> path_exists env path then False
      else if getsize env path > 20 * 1024 * 1024 then False
      else True)"

text \<open>\<open>os.path.basename\<close>: what follows the last slash.\<close>

definition basename :: "string \<Rightarrow> string" where
  "basename path = drop (nat (py_rfind CHR ''/'' path + 1)) path"

text \<open>
  \<open>str(e)\<close> for the exceptions whose message is recorded.  The message of
  \<open>UnboundLocalError\<close> is that of CPython 3.11 and later.
\<close>

fun exception_str :: "py_exception \<Rightarrow> string" where
  "exception_str (ValueError msg) = msg"
| "exception_str (RuntimeError msg) = msg"
| "exception_str (UnboundLocalError v) =
     ''cannot access local variable '' @ [CHR 0x27] @ v @ [CHR 0x27]
     @ '' where it is not associated with a value''"
| "exception_str JSONDecodeError = ''JSONDecodeError''"
| "exception_str TypeError = ''TypeError''"
| "exception_str AttributeError = ''AttributeError''"

text \<open>The dict \<open>results\<close> as first built, and the dict returned by the handler.\<close>

definition initial_results :: "options \<Rightarrow> string \<Rightarrow> results" where
  "initial_results opts path =
     \<lparr>file_path = path, file_name = Some (basename path), analysis_options = opts,
      status = ''processing'', error = None, text_extraction = None, summary = None,
      entities = None, clauses = None, highlighted_text = None, clause_summary = None,
      suggested_questions = None, qa_ready_text = None, bullet_points = None,
      risk_analysis = None, relationships = None\<rparr>"

definition failed_results :: "options \<Rightarrow> string \<Rightarrow> py_exception \<Rightarrow> results" where
  "failed_results opts path e =
     \<lparr>file_path = path, file_name = None, analysis_options = opts,
      status = ''failed'', error = Some (exception_str e), text_extraction = None,
      summary = None, entities = None, clauses = None, highlighted_text = None,
      clause_summary = None, suggested_questions = None, qa_ready_text = None,
      bullet_points = None, risk_analysis = None, relationships = None\<rparr>"

text \<open>
  Step 1 of both processors.  The local variable \<open>text_data\<close> is bound only when the
  \<open>extract_text\<close> option holds; \<open>Inl results\<close> is the early \<open>return results\<close> taken when
  no text was extracted, \<open>Inr\<close> carries on with \<open>text_data\<close> (\<open>None\<close> when unbound).
\<close>

definition extract_step :: "env \<Rightarrow> options \<Rightarrow> string \<Rightarrow> results \<Rightarrow> results + (text_data option \<times> results)" where
  "extract_step env opts path results =
     (if option_get True (opt_extract_text opts)
      then (let text_data = extract_document_text env path;
                results = results\<lparr>text_extraction := Some text_data\<rparr>
            in if extracted_text text_data = []
               then Inl (results\<lparr>status := ''failed'',
                                 error := Some ''No text could be extracted from document''\<rparr>)
               else Inr (Some text_data, results))
      else Inr (None, results))"

text \<open>The stages that follow, each guarded by its option.\<close>

definition summary_stage :: "env \<Rightarrow> options \<Rightarrow> string \<Rightarrow> results \<Rightarrow> results" where
  "summary_stage env opts document_text results =
     (if option_get True (opt_generate_summary opts)
      then results\<lparr>summary := Some (summarize_document env document_text
                        (option_get ''comprehensive'' (opt_summary_type opts)))\<rparr>
      else results)"

definition entities_stage :: "env \<Rightarrow> options \<Rightarrow> string \<Rightarrow> results \<Rightarrow> results" where
  "entities_stage env opts document_text results =
     (if option_get True (opt_extract_entities opts)
      then results\<lparr>entities := Some (extract_entities env document_text
                        (option_get ''comprehensive'' (opt_entity_extraction_type opts)))\<rparr>
      else results)"

definition clauses_stage :: "env \<Rightarrow> options \<Rightarrow> string \<Rightarrow> results \<Rightarrow> results" where
  "clauses_stage env opts document_text results =
     (if option_get True (opt_extract_clauses opts)
      then (let clause_data = extract_clauses env document_text (opt_clause_types opts);
                results = results\<lparr>clauses := Some clause_data\<rparr>
            in if found_clauses clause_data \<noteq> []
               then results
                      \<lparr>highlighted_text :=
                         Some (highlight_clauses_in_text (format_value env) document_text
                                 (found_clauses clause_data)),
                       clause_summary :=
                         Some (clause_summary_of env (found_clauses clause_data))\<rparr>
               else results)
      else results)"

definition qa_stage :: "env \<Rightarrow> options \<Rightarrow> string \<Rightarrow> results \<Rightarrow> results" where
  "qa_stage env opts document_text results =
     (if option_get True (opt_generate_qa_suggestions opts)
      then results\<lparr>suggested_questions := Some (get_suggested_questions env document_text),
                   qa_ready_text := Some (take 10000 document_text)\<rparr>
      else results)"

definition bullet_points_stage :: "env \<Rightarrow> options \<Rightarrow> string \<Rightarrow> results \<Rightarrow> results" where
  "bullet_points_stage env opts document_text results =
     (if option_get True (opt_generate_bullet_points opts)
      then results\<lparr>bullet_points := Some (generate_bullet_points env document_text)\<rparr>
      else results)"

definition risks_stage :: "env \<Rightarrow> options \<Rightarrow> string \<Rightarrow> results \<Rightarrow> results" where
  "risks_stage env opts document_text results =
     (if option_get True (opt_analyze_risks opts)
      then results\<lparr>risk_analysis := Some (analyze_legal_risks env document_text)\<rparr>
      else results)"

definition relationships_stage :: "env \<Rightarrow> options \<Rightarrow> string \<Rightarrow> results \<Rightarrow> results" where
  "relationships_stage env opts document_text results =
     (if option_get False (opt_extract_relationships opts)
      then results\<lparr>relationships := Some (extract_legal_relationships env document_text)\<rparr>
      else results)"

text \<open>
  The \<open>try\<close> block of \<open>EnhancedLegalDocumentProcessor.process_document\<close>.  Reading
  \<open>text_data\<close> when it was never bound raises \<open>UnboundLocalError\<close>.
\<close>

definition enhanced_process_try :: "env \<Rightarrow> options \<Rightarrow> string \<Rightarrow> py_exception + results" where
  "enhanced_process_try env opts path =
     (if \<not> validate_file env path then Inl (ValueError (''Invalid file: '' @ path))
      else (case extract_step env opts path (initial_results opts path) of
              Inl results \<Rightarrow> Inr results
            | Inr (None, results) \<Rightarrow> Inl (UnboundLocalError ''text_data'')
            | Inr (Some text_data, results) \<Rightarrow>
                (let document_text = extracted_text text_data;
                     results = summary_stage env opts document_text results;
                     results = entities_stage env opts document_text results;
                     results = clauses_stage env opts document_text results;
                     results = qa_stage env opts document_text results;
                     results = bullet_points_stage env opts document_text results;
                     results = risks_stage env opts document_text results
                 in Inr (results\<lparr>status := ''completed''\<rparr>))))"

definition enhanced_process_document :: "env \<Rightarrow> options option \<Rightarrow> string \<Rightarrow> results" where
  "enhanced_process_document env given_options path =
     (let opts = (case given_options of None \<Rightarrow> enhanced_default_options | Some d \<Rightarrow> d)
      in case enhanced_process_try env opts path of
           Inr results \<Rightarrow> results
         | Inl e \<Rightarrow> failed_results opts path e)"

text \<open>\<open>LegalDocumentProcessor.process_document\<close>, in the same way.\<close>

definition process_try :: "env \<Rightarrow> options \<Rightarrow> string \<Rightarrow> py_exception + results" where
  "process_try env opts path =
     (if \<not> validate_file env path then Inl (ValueError (''Invalid file: '' @ path))
      else (case extract_step env opts path (initial_results opts path) of
              Inl results \<Rightarrow> Inr results
            | Inr (None, results) \<Rightarrow> Inl (UnboundLocalError ''text_data'')
            | Inr (Some text_data, results) \<Rightarrow>
                (let document_text = extracted_text text_data;
                     results = summary_stage env opts document_text results;
                     results = entities_stage env opts document_text results;
                     results = bullet_points_stage env opts document_text results;
                     results = risks_stage env opts document_text results;
                     results = relationships_stage env opts document_text results
                 in Inr (results\<lparr>status := ''completed''\<rparr>))))"

definition process_document :: "env \<Rightarrow> options option \<Rightarrow> string \<Rightarrow> results" where
  "process_document env given_options path =
     (let opts = (case given_options of None \<Rightarrow> default_options | Some d \<Rightarrow> d)
      in case process_try env opts path of
           Inr results \<Rightarrow> results
         | Inl e \<Rightarrow> failed_results opts path e)"

text \<open>The stage keys of \<open>results\<close> that only a later stage writes.\<close>

definition no_stage_output :: "results \<Rightarrow> bool" where
  "no_stage_output r =
     (summary r = None \<and> entities r = None \<and> clauses r = None \<and> clause_summary r = None
      \<and> highlighted_text r = None \<and> suggested_questions r = None \<and> bullet_points r = None
      \<and> risk_analysis r = None)"

subsection \<open>Processing a batch\<close>

text \<open>
  The dict \<open>results\<close> of \<open>process_multiple_documents\<close>.  \<open>individual_results\<close> is the
  dict from file path to result, in insertion order; \<open>summary_comparison\<close> is \<open>None\<close>
  or the dict of the comparison, which is either an error note or a comparison.
\<close>

record batch_results =
  total_documents :: nat
  processed_successfully :: nat
  failed :: nat
  individual_results :: "(string \<times> results) list"
  summary_comparison :: "(string + comparison) option"

text \<open>\<open>GeminiSummarizer.compare_documents\<close>.\<close>

definition compare_documents :: "env \<Rightarrow> string \<Rightarrow> string \<Rightarrow> string \<Rightarrow> string \<Rightarrow> comparison" where
  "compare_documents env text1 text2 name1 name2 =
     \<lparr>comparison_text =
        (case compare_response env text1 text2 name1 name2 of
           Inr response_text \<Rightarrow> response_text
         | Inl e \<Rightarrow> ''Error comparing documents''),
      doc1_name = name1, doc2_name = name2, analysis_date = current_timestamp env\<rparr>"

text \<open>
  \<open>_compare_multiple_documents\<close>: the first two results are compared; a key missing
  from one of them raises \<open>KeyError\<close>, which the handler turns into an error note.
\<close>

definition key_error_note :: "string \<Rightarrow> string" where
  "key_error_note key = ''Comparison failed: '' @ [CHR 0x27] @ key @ [CHR 0x27]"

definition compare_multiple_documents :: "env \<Rightarrow> results list \<Rightarrow> string + comparison" where
  "compare_multiple_documents env rs =
     (if length rs < 2 then Inl ''Need at least 2 documents for comparison''
      else (let doc1_result = rs ! 0; doc2_result = rs ! 1
            in case text_extraction doc1_result of
                 None \<Rightarrow> Inl (key_error_note ''text_extraction'')
               | Some t1 \<Rightarrow>
                   (case text_extraction doc2_result of
                      None \<Rightarrow> Inl (key_error_note ''text_extraction'')
                    | Some t2 \<Rightarrow>
                        (case file_name doc1_result of
                           None \<Rightarrow> Inl (key_error_note ''file_name'')
                         | Some n1 \<Rightarrow>
                             (case file_name doc2_result of
                                None \<Rightarrow> Inl (key_error_note ''file_name'')
                              | Some n2 \<Rightarrow>
                                  Inr (compare_documents env (extracted_text t1)
                                         (extracted_text t2) n1 n2))))))"

text \<open>
  One round of the loop of \<open>process_multiple_documents\<close>; the state is the dict
  \<open>results\<close> and the list of the completed results.
\<close>

definition batch_step ::
  "env \<Rightarrow> options option \<Rightarrow> batch_results \<times> results list \<Rightarrow> string
     \<Rightarrow> batch_results \<times> results list" where
  "batch_step env given_options st path =
     (let result = process_document env given_options path;
          batch = (fst st)\<lparr>individual_results :=
                              AList.update path result (individual_results (fst st))\<rparr>
      in if status result = ''completed''
         then (batch\<lparr>processed_successfully := processed_successfully batch + 1\<rparr>,
               snd st @ [result])
         else (batch\<lparr>failed := failed batch + 1\<rparr>, snd st))"

definition process_multiple_documents ::
  "env \<Rightarrow> options option \<Rightarrow> string list \<Rightarrow> batch_results" where
  "process_multiple_documents env given_options file_paths =
     (let start =
            \<lparr>total_documents = length file_paths, processed_successfully = 0, failed = 0,
             individual_results = [], summary_comparison = None\<rparr>;
          st = foldl (batch_step env given_options) (start, []) file_paths
      in if length (snd st) \<ge> 2
            \<and> (case given_options of
                  None \<Rightarrow> False
                | Some d \<Rightarrow> option_get False (opt_compare_documents d))
         then (fst st)\<lparr>summary_comparison := Some (compare_multiple_documents env (snd st))\<rparr>
         else fst st)"

subsection \<open>A concrete environment\<close>

text \<open>
  Three files: \<open>contract.txt\<close> holds the two sentences of \<open>nda_document\<close>,
  \<open>lease.txt\<close> one sentence, and nothing can be extracted from \<open>scan.pdf\<close>.  The
  model answers the clause prompt with \<open>payment_response\<close> and the bullet-point
  prompt with one bullet; every other call to it fails.
\<close>

definition quota_error :: py_exception where
  "quota_error = RuntimeError ''429 quota exceeded''"

definition demo_env :: env where
  "demo_env =
     \<lparr>path_exists = (\<lambda>p. p \<in> set [''contract.txt'', ''lease.txt'', ''scan.pdf'']),
      getsize = (\<lambda>p. 2048),
      extract_document_text =
        (\<lambda>p. if p = ''contract.txt''
             then \<lparr>extracted_text = nda_document, pages = 1, confidence = 1\<rparr>
             else if p = ''lease.txt''
             then \<lparr>extracted_text = ''The lease runs for two years.'', pages = 1,
                   confidence = 1\<rparr>
             else \<lparr>extracted_text = [], pages = 0, confidence = 0\<rparr>),
      summarize_try = (\<lambda>t s. Inl quota_error),
      entity_response = (\<lambda>t s. Inl quota_error),
      clause_response = (\<lambda>t ts. Inr payment_response),
      relationship_response = (\<lambda>t. Inl quota_error),
      suggested_questions_try = (\<lambda>t. Inl quota_error),
      bullet_points_try = (\<lambda>t. Inr [''- Pay within 30 days'']),
      legal_risks_try = (\<lambda>t. Inl quota_error),
      compare_response = (\<lambda>t1 t2 n1 n2. Inl quota_error),
      current_timestamp = ''2024-01-01 00:00:00'',
      json_loads = loads_of [(payment_response, payment_decoded)],
      list_of_set = remdups,
      format_value = (\<lambda>v. []),
      clause_summary_of = (\<lambda>cs. JNull)\<rparr>"

section \<open>Properties of the confidence estimator\<close>

lemma fl_tenth_le_one: "fl (1 / 10) \<le> 1"
  by code_simp

lemma clamp_bounds:
  fixes lo hi c :: rat
  assumes "lo \<le> hi"
  shows "lo \<le> max lo (min hi c) \<and> max lo (min hi c) \<le> hi"
  using assms by (simp add: max_def min_def)

text \<open>
  Claim C3, as stated, fails at the empty answer: the guard at the head of
  \<open>_estimate_confidence\<close> returns \<open>0.0\<close>, which is below \<open>0.1\<close>.
\<close>

theorem estimate_confidence_empty_counterexample:
  "estimate_confidence [] = 0 \<and> \<not> fl (1 / 10) \<le> estimate_confidence []"
  by code_simp

text \<open>
  Claim C3, amended: for every non-empty answer the estimator returns a value \<open>v\<close> with
  \<open>0.1 \<le> v \<le> 1.0\<close>, however many uncertainty phrases the answer contains; for the
  empty answer it returns \<open>0.0\<close>.
\<close>

theorem estimate_confidence_bounds:
  "(answer_text \<noteq> [] \<longrightarrow>
      fl (1 / 10) \<le> estimate_confidence answer_text \<and> estimate_confidence answer_text \<le> 1)
   \<and> (answer_text = [] \<longrightarrow> estimate_confidence answer_text = 0)"
  using clamp_bounds [OF fl_tenth_le_one]
  by (simp add: estimate_confidence_def Let_def)

theorem estimate_confidence_bounds_witness:
  "''might could possibly unclear not specified not mentioned'' \<noteq> []
   \<and> fl (1 / 10) \<le> estimate_confidence ''might could possibly unclear not specified not mentioned''
   \<and> estimate_confidence ''might could possibly unclear not specified not mentioned'' \<le> 1
   \<and> estimate_confidence [] = 0"
  using estimate_confidence_bounds [of "''might could possibly unclear not specified not mentioned''"]
    estimate_confidence_bounds [of "[]"]
  by simp

text \<open>
  Claim C9, as stated, fails: in binary64 arithmetic \<open>0.8 - 0.2 - 0.2\<close> is not the
  float \<open>0.4\<close> (nor the rational \<open>4/10\<close>), so the value returned for
  "This might possibly be the case" is not exactly \<open>0.4\<close>.
\<close>

theorem estimate_confidence_example_counterexample:
  "estimate_confidence ''This might possibly be the case'' \<noteq> fl (4 / 10)
   \<and> estimate_confidence ''This might possibly be the case'' \<noteq> 4 / 10"
  by code_simp

text \<open>
  Claim C9, amended: for "This might possibly be the case" the estimator returns the
  base \<open>0.8\<close> minus \<open>0.2\<close> for "might" and minus \<open>0.2\<close> for "possibly", each
  subtraction rounded to binary64, with no bonus and no clamping applied; the value is
  \<open>7205759403792795 / 2 ^ 54\<close> (printed \<open>0.4000000000000001\<close>), one unit in the last
  place above the float \<open>0.4\<close>.
\<close>

theorem estimate_confidence_example:
  "estimate_confidence ''This might possibly be the case''
     = float_sub (float_sub (fl (8 / 10)) (fl (2 / 10))) (fl (2 / 10))
   \<and> estimate_confidence ''This might possibly be the case'' = 7205759403792795 / 2 ^ 54
   \<and> estimate_confidence ''This might possibly be the case'' = fl (4 / 10) + 1 / 2 ^ 54
   \<and> \<bar>estimate_confidence ''This might possibly be the case'' - 4 / 10\<bar> < 1 / 10 ^ 16"
  by code_simp

section \<open>Properties of the clause parser\<close>



lemma clean_clauses_text:
  "clean_clauses items acc = Inr cs \<Longrightarrow> \<forall>c\<in>set acc. 20 < length (clause_text c)
   \<Longrightarrow> \<forall>c\<in>set cs. 20 < length (clause_text c)"
  by (induction items acc rule: clean_clauses.induct)
     (auto split: if_splits json.splits simp: Let_def)

lemma clean_clauses_not_decode_error:
  "clean_clauses items acc \<noteq> Inl JSONDecodeError"
  by (induction items acc rule: clean_clauses.induct)
     (auto split: if_splits json.splits simp: Let_def)

lemma py_iter_not_decode_error: "py_iter v \<noteq> Inl JSONDecodeError"
  by (cases v) auto

lemma find_clause_type_known: "find_clause_type line = Some t \<Longrightarrow> t \<in> set clause_types"
  by (auto simp: find_clause_type_def find_Some_iff)

lemma fallback_clause_step_known:
  assumes "list_all known_type (fst st)"
    and "case snd st of Some c \<Rightarrow> known_type c | None \<Rightarrow> True"
  shows "list_all known_type (fst (fallback_clause_step st l))
         \<and> (case snd (fallback_clause_step st l) of Some c \<Rightarrow> known_type c | None \<Rightarrow> True)"
  using assms
  by (cases st) (auto simp: fallback_clause_step_def Let_def known_type_def
       dest: find_clause_type_known split: option.splits)

lemma fallback_clause_fold_known:
  "list_all known_type (fst st) \<Longrightarrow> (case snd st of Some c \<Rightarrow> known_type c | None \<Rightarrow> True)
   \<Longrightarrow> list_all known_type (fst (foldl fallback_clause_step st ls))
       \<and> (case snd (foldl fallback_clause_step st ls) of
             Some c \<Rightarrow> known_type c | None \<Rightarrow> True)"
proof (induction ls arbitrary: st)
  case Nil
  then show ?case by simp
next
  case (Cons l ls)
  from fallback_clause_step_known [OF Cons.prems] Cons.IH
  show ?case by simp
qed

lemma fallback_clause_parsing_known: "list_all known_type (fallback_clause_parsing raw)"
  using fallback_clause_fold_known [of "([], None)" "py_split CHR 10 raw"]
  by (auto simp: fallback_clause_parsing_def split: prod.splits option.splits)

text \<open>
  Claim C2, as stated, fails on the strict path: the clause type of a decoded record is
  copied, not checked, so a response naming another type gives a record whose
  \<open>clause_type\<close> is outside the twelve types of the class.
\<close>

theorem parse_clause_response_type_counterexample:
  "parse_clause_response (loads_of [(penalty_response, penalty_decoded)]) penalty_response
     = Inr [\<lparr>clause_type = JStr ''PENALTY'',
             clause_text = ''A late fee of 5% applies after 30 days.'',
             clause_context = JStr [], importance = JStr ''MEDIUM'',
             clause_section = JStr ''Unknown''\<rparr>]
   \<and> JStr ''PENALTY'' \<notin> JStr ` set clause_types"
  by code_simp

text \<open>
  The fallback path, for its part, keeps a record whose text was never filled in:
  the length check of the strict path is missing where the records are appended.
\<close>

lemma fallback_clause_parsing_empty_text:
  "fallback_clause_parsing ''PAYMENT: x''
     = [\<lparr>clause_type = JStr ''PAYMENT'', clause_text = [], clause_context = JStr [],
          importance = JStr ''MEDIUM'', clause_section = JStr ''Unknown''\<rparr>]"
  by code_simp

lemma clean_clauses_filter:
  "clean_clauses items acc = Inr cs
   \<Longrightarrow> cs = acc @ map cleaned_clause (filter usable_clause items)"
proof (induction items arbitrary: acc)
  case Nil
  then show ?case by simp
next
  case (Cons j items)
  show ?case
  proof (cases "usable_clause j")
    case False
    have "clean_clauses items acc = Inr cs"
    proof (cases j)
      case (JObj d)
      with False Cons.prems show ?thesis
        by (auto simp: Let_def usable_clause_def item_dict_def item_text_def
            split: if_splits json.splits)
    qed (use Cons.prems in simp_all)
    from Cons.IH [OF this] False show ?thesis by simp
  next
    case True
    then obtain d where j: "j = JObj d"
      by (cases j) (auto simp: usable_clause_def item_dict_def)
    from True j obtain s where s: "dict_get d ''clause_text'' (JStr []) = JStr s"
      by (auto simp: usable_clause_def item_dict_def item_text_def split: json.splits)
    from True j s have l: "20 < length (py_strip s)"
      and k: "''clause_type'' \<in> fst ` set d" "''clause_text'' \<in> fst ` set d"
      by (auto simp: usable_clause_def item_dict_def item_text_def)
    have c: "cleaned_clause j =
               \<lparr>clause_type = dict_get d ''clause_type'' (JStr []),
                clause_text = py_strip s,
                clause_context = dict_get d ''context'' (JStr []),
                importance = dict_get d ''importance'' (JStr ''MEDIUM''),
                clause_section = dict_get d ''section'' (JStr ''Unknown'')\<rparr>"
      by (simp add: cleaned_clause_def item_dict_def item_text_def j s)
    have "clean_clauses items (acc @ [cleaned_clause j]) = Inr cs"
      using Cons.prems j s l k c by (simp add: Let_def)
    from Cons.IH [OF this] True show ?thesis by simp
  qed
qed

lemma parse_clause_response_checks:
  assumes "parse_clause_response loads raw = Inr cs" and "c \<in> set cs"
  shows "(loads (clause_json_str raw) \<noteq> Inl JSONDecodeError \<longrightarrow> 20 < length (clause_text c))
       \<and> (loads (clause_json_str raw) = Inl JSONDecodeError
            \<longrightarrow> clause_type c \<in> JStr ` set clause_types)"
proof (intro conjI impI)
  assume ok: "loads (clause_json_str raw) \<noteq> Inl JSONDecodeError"
  show "20 < length (clause_text c)"
  proof (cases "parse_clause_try loads raw")
    case (Inr cs')
    with assms have "cs' = cs" by (simp add: parse_clause_response_def)
    with Inr have "\<exists>items. clean_clauses items [] = Inr cs"
      by (auto simp: parse_clause_try_def split: sum.splits)
    with clean_clauses_text assms(2) show ?thesis by fastforce
  next
    case (Inl e)
    with ok have "e \<noteq> JSONDecodeError"
      using clean_clauses_not_decode_error py_iter_not_decode_error
      by (auto simp: parse_clause_try_def split: sum.splits)
    with Inl assms show ?thesis
      by (cases e) (auto simp: parse_clause_response_def)
  qed
next
  assume "loads (clause_json_str raw) = Inl JSONDecodeError"
  then have "parse_clause_response loads raw = Inr (fallback_clause_parsing raw)"
    by (simp add: parse_clause_response_def parse_clause_try_def)
  with assms fallback_clause_parsing_known [of raw]
  show "clause_type c \<in> JStr ` set clause_types"
    by (auto simp: list_all_iff known_type_def)
qed

lemma clean_clauses_malformed:
  "list_ex malformed_text items \<Longrightarrow> clean_clauses items acc = Inl AttributeError"
proof (induction items arbitrary: acc)
  case Nil
  then show ?case by simp
next
  case (Cons j items)
  show ?case
  proof (cases "malformed_text j")
    case True
    then obtain d where j: "j = JObj d"
      by (cases j) (auto simp: malformed_text_def item_dict_def)
    with True show ?thesis
      by (auto simp: malformed_text_def item_dict_def split: json.splits)
  next
    case False
    with Cons.prems have r: "list_ex malformed_text items" by simp
    show ?thesis
    proof (cases j)
      case (JObj d)
      with False Cons.IH [OF r] show ?thesis
        by (auto simp: malformed_text_def item_dict_def Let_def split: json.splits)
    qed (use Cons.IH [OF r] in simp_all)
  qed
qed

lemma clean_clauses_wellformed:
  "\<not> list_ex malformed_text items
   \<Longrightarrow> clean_clauses items acc = Inr (acc @ map cleaned_clause (filter usable_clause items))"
proof (induction items arbitrary: acc)
  case Nil
  then show ?case by simp
next
  case (Cons j items)
  then have m: "\<not> malformed_text j" and r: "\<not> list_ex malformed_text items"
    by simp_all
  have "\<exists>cs. clean_clauses (j # items) acc = Inr cs"
  proof (cases j)
    case (JObj d)
    with m Cons.IH [OF r] show ?thesis
      by (auto simp: malformed_text_def item_dict_def Let_def split: json.splits)
  qed (use Cons.IH [OF r] in simp_all)
  then obtain cs where "clean_clauses (j # items) acc = Inr cs" by blast
  with clean_clauses_filter [OF this] show ?case by simp
qed

lemma parse_clause_response_returns: "\<exists>cs. parse_clause_response loads raw = Inr cs"
  by (simp add: parse_clause_response_def split: sum.splits py_exception.splits)

text \<open>
  Claim C2, amended: every record returned on the strict path (the decoder did not
  raise \<open>JSONDecodeError\<close>) has a stripped \<open>clause_text\<close> longer than 20 characters.
  When no decoded item with both keys has a \<open>clause_text\<close> that is not a string, the
  list returned on that path is made of the usable items of the decoded list, in
  order, the others being dropped without an error; when there is such an item, or the
  decoded value cannot be iterated, the list returned is empty.  Every record returned
  on the fallback path has a \<open>clause_type\<close> among the twelve types of the class.
\<close>

theorem parse_clause_response_records:
  assumes "parse_clause_response loads raw = Inr cs"
  shows "(c \<in> set cs \<and> loads (clause_json_str raw) \<noteq> Inl JSONDecodeError
            \<longrightarrow> 20 < length (clause_text c))
       \<and> (c \<in> set cs \<and> loads (clause_json_str raw) = Inl JSONDecodeError
            \<longrightarrow> clause_type c \<in> JStr ` set clause_types)
       \<and> (loads (clause_json_str raw) = Inr v \<and> py_iter v = Inr items
            \<longrightarrow> cs = (if list_ex malformed_text items then []
                      else map cleaned_clause (filter usable_clause items)))
       \<and> (loads (clause_json_str raw) = Inr v \<and> py_iter v = Inl e \<longrightarrow> cs = [])"
proof -
  have 1: "cs = (if list_ex malformed_text items then []
                 else map cleaned_clause (filter usable_clause items))"
    if "loads (clause_json_str raw) = Inr v" "py_iter v = Inr items"
  proof (cases "list_ex malformed_text items")
    case True
    from clean_clauses_malformed [OF True, of "[]"] that assms True show ?thesis
      by (simp add: parse_clause_response_def parse_clause_try_def)
  next
    case False
    from clean_clauses_wellformed [OF False, of "[]"] that assms False show ?thesis
      by (simp add: parse_clause_response_def parse_clause_try_def)
  qed
  have 2: "cs = []" if "loads (clause_json_str raw) = Inr v" "py_iter v = Inl e"
    using that assms py_iter_not_decode_error [of v]
    by (cases e) (auto simp: parse_clause_response_def parse_clause_try_def)
  from parse_clause_response_checks [OF assms, of c] 1 2 show ?thesis by blast
qed

theorem parse_clause_response_records_witness:
  "parse_clause_response (loads_of [(payment_response, payment_decoded)]) payment_response
     = Inr [\<lparr>clause_type = JStr ''PAYMENT'', clause_text = ''Pay within 30 days of invoice.'',
             clause_context = JStr ''payment term'', importance = JStr ''HIGH'',
             clause_section = JStr ''3.1''\<rparr>]
   \<and> loads_of [(payment_response, payment_decoded)] (clause_json_str payment_response)
       = Inr payment_decoded
   \<and> 20 < length ''Pay within 30 days of invoice.''
   \<and> parse_clause_response (loads_of []) ''PAYMENT: Pay within 30 days of invoice.''
     = Inr [\<lparr>clause_type = JStr ''PAYMENT'',
             clause_text = ''PAYMENT: Pay within 30 days of invoice.'',
             clause_context = JStr [], importance = JStr ''MEDIUM'',
             clause_section = JStr ''Unknown''\<rparr>]
   \<and> loads_of [] (clause_json_str ''PAYMENT: Pay within 30 days of invoice.'')
       = Inl JSONDecodeError
   \<and> JStr ''PAYMENT'' \<in> JStr ` set clause_types
   \<and> loads_of [(mixed_response, mixed_decoded)] (clause_json_str mixed_response)
       = Inr mixed_decoded
   \<and> list_ex malformed_text [JObj [(''clause_type'', JStr ''PAYMENT''), (''clause_text'', JNum 5)]]
   \<and> parse_clause_response (loads_of [(mixed_response, mixed_decoded)]) mixed_response = Inr []"
proof -
  let ?L = "loads_of [(payment_response, payment_decoded)]"
  let ?M = "loads_of [(mixed_response, mixed_decoded)]"
  let ?c = "\<lparr>clause_type = JStr ''PAYMENT'', clause_text = ''Pay within 30 days of invoice.'',
             clause_context = JStr ''payment term'', importance = JStr ''HIGH'',
             clause_section = JStr ''3.1''\<rparr>"
  let ?raw = "''PAYMENT: Pay within 30 days of invoice.''"
  let ?d = "\<lparr>clause_type = JStr ''PAYMENT'', clause_text = ?raw,
             clause_context = JStr [], importance = JStr ''MEDIUM'',
             clause_section = JStr ''Unknown''\<rparr>"
  let ?good = "JObj [(''clause_type'', JStr ''PAYMENT''),
                     (''clause_text'', JStr ''Pay within 30 days of invoice.'')]"
  let ?bad = "JObj [(''clause_type'', JStr ''PAYMENT''), (''clause_text'', JNum 5)]"
  have r1: "parse_clause_response ?L payment_response = Inr [?c]"
    by code_simp
  have l1: "?L (clause_json_str payment_response) = Inr payment_decoded"
    by code_simp
  have r2: "parse_clause_response (loads_of []) ?raw = Inr [?d]"
    by code_simp
  have l2: "loads_of [] (clause_json_str ?raw) = Inl JSONDecodeError"
    by code_simp
  obtain cs where r3: "parse_clause_response ?M mixed_response = Inr cs"
    using parse_clause_response_returns by blast
  have l3: "?M (clause_json_str mixed_response) = Inr mixed_decoded"
    by code_simp
  have i3: "py_iter mixed_decoded = Inr [?good, ?bad]"
    by (simp add: mixed_decoded_def)
  have m3: "list_ex malformed_text [?bad]" "list_ex malformed_text [?good, ?bad]"
    by code_simp+
  from parse_clause_response_records [OF r1, of ?c] l1
  have "20 < length ''Pay within 30 days of invoice.''" by simp
  moreover from parse_clause_response_records [OF r2, of ?d] l2
  have "JStr ''PAYMENT'' \<in> JStr ` set clause_types" by simp
  moreover from parse_clause_response_records [OF r3, of _ mixed_decoded "[?good, ?bad]"] l3 i3 m3
  have "cs = []" by simp
  ultimately show ?thesis using r1 l1 r2 l2 r3 l3 m3 by simp
qed

section \<open>Properties of the entity parser\<close>

lemma rev_dropWhile_rev_prefix: "prefix (rev (dropWhile P (rev t))) t"
  by (metis append_take_drop_id dropWhile_eq_drop prefix_def rev_append rev_drop rev_rev_ident rev_take)

lemma prefix_hd: "prefix u t \<Longrightarrow> u \<noteq> [] \<Longrightarrow> hd u = hd t \<and> t \<noteq> []"
  by (auto simp: prefix_def)

lemma strip_right_keeps_head:
  assumes "t = [] \<or> \<not> P (hd t)"
  shows "dropWhile P (rev (dropWhile P (rev t))) = rev (dropWhile P (rev t))"
proof (cases "rev (dropWhile P (rev t)) = []")
  case True
  show ?thesis by (simp only: True dropWhile.simps)
next
  case False
  from prefix_hd [OF rev_dropWhile_rev_prefix False] assms
  have "\<not> P (hd (rev (dropWhile P (rev t))))" by metis
  with False show ?thesis by (simp only: dropWhile_eq_self_iff) blast
qed

lemma py_strip_idem: "py_strip (py_strip s) = py_strip s"
proof -
  have h: "dropWhile isspace s = [] \<or> \<not> isspace (hd (dropWhile isspace s))"
    using hd_dropWhile [of isspace s] by blast
  show ?thesis
    unfolding py_strip_def
    by (simp only: strip_right_keeps_head [of "dropWhile isspace s" isspace, OF h] rev_rev_ident dropWhile_idem)
qed

lemma stripped_entities_clean:
  "stripped_entities xs = Inr l \<Longrightarrow> list_all (\<lambda>e. trimmed e \<and> length e > 1) l"
proof (induction xs arbitrary: l)
  case Nil
  then show ?case by simp
next
  case (Cons x xs)
  then show ?case
    by (auto simp: trimmed_def py_strip_idem split: if_splits json.splits sum.splits)
qed

lemma take_set_list_clean:
  assumes "lists_set set_list" and "list_all (\<lambda>e. trimmed e \<and> length e > 1) l"
  shows "clean_entity_list (take 20 (set_list l))"
proof -
  from assms(1) have d: "distinct (set_list l)" and s: "set (set_list l) = set l"
    by (auto simp: lists_set_def)
  have "set (take 20 (set_list l)) \<subseteq> set l" using s set_take_subset by fastforce
  with assms(2) have "list_all (\<lambda>e. trimmed e \<and> length e > 1) (take 20 (set_list l))"
    by (auto simp: list_all_iff)
  with d show ?thesis by (simp add: clean_entity_list_def)
qed

lemma update_values:
  "(k', l') \<in> set (AList.update k l al) \<Longrightarrow> l' = l \<or> (k', l') \<in> set al"
  by (induction al) (auto split: if_splits)

lemma clean_entities_clean:
  "lists_set set_list \<Longrightarrow> clean_entities set_list items acc = Inr m
   \<Longrightarrow> list_all (\<lambda>kv. clean_entity_list (snd kv)) acc
   \<Longrightarrow> list_all (\<lambda>kv. clean_entity_list (snd kv)) m"
proof (induction set_list items acc rule: clean_entities.induct)
  case (1 set_list cleaned_entities)
  then show ?case by simp
next
  case (2 set_list category entity_list items cleaned_entities)
  from "2.prems"(2) obtain stripped where st: "stripped_entities entity_list = Inr stripped"
    by (auto split: sum.splits)
  let ?cl = "take 20 (set_list stripped)"
  have c: "clean_entity_list ?cl"
    using take_set_list_clean [OF "2.prems"(1) stripped_entities_clean [OF st]] .
  show ?case
  proof (cases "?cl = []")
    case True
    with 2 st show ?thesis by (simp add: Let_def)
  next
    case False
    have "list_all (\<lambda>kv. clean_entity_list (snd kv)) (AList.update category ?cl cleaned_entities)"
      using c "2.prems"(3) update_values [of _ _ category ?cl cleaned_entities]
      by (fastforce simp: list_all_iff)
    with 2 st False show ?thesis by (simp add: Let_def)
  qed
qed simp_all

lemma parse_entity_strict_clean:
  assumes "lists_set set_list" and "parse_entity_try set_list loads raw = Inr m"
  shows "list_all (\<lambda>kv. clean_entity_list (snd kv)) m"
  using assms clean_entities_clean [of set_list _ "[]" m]
  by (auto simp: parse_entity_try_def split: sum.splits)

lemma map_entry_values:
  "(k', l') \<in> set (AList.map_entry k f al) \<Longrightarrow> (k', l') \<in> set al \<or> (\<exists>l. (k', l) \<in> set al \<and> l' = f l)"
  by (induction al) (auto split: if_splits)

lemma trimmed_lists_update: "trimmed_lists m \<Longrightarrow> trimmed_lists (AList.update k [] m)"
  using update_values [of _ _ k "[]" m]
  by (fastforce simp: trimmed_lists_def list_all_iff)

lemma trimmed_lists_map_entry:
  assumes "trimmed_lists m" and "length (py_strip x) > 1"
  shows "trimmed_lists (AList.map_entry k (\<lambda>l. l @ [py_strip x]) m)"
  using assms map_entry_values [of _ _ k "\<lambda>l. l @ [py_strip x]" m]
  by (fastforce simp: trimmed_lists_def list_all_iff trimmed_def py_strip_idem)

lemma fallback_entity_step_trimmed:
  assumes "trimmed_lists (fst st)"
  shows "trimmed_lists (fst (fallback_entity_step st l))"
proof -
  obtain ents cur where
    x: "(case find_category (py_strip l) of
           Some category \<Rightarrow> (AList.update category [] (fst st), Some category)
         | None \<Rightarrow> st) = (ents, cur)"
    by (cases "(case find_category (py_strip l) of
           Some category \<Rightarrow> (AList.update category [] (fst st), Some category)
         | None \<Rightarrow> st)") blast
  have q: "trimmed_lists ents"
    using x assms trimmed_lists_update [OF assms]
    by (cases st) (auto split: option.splits)
  show ?thesis
    unfolding fallback_entity_step_def Let_def x
    using q trimmed_lists_map_entry [OF q]
    by (auto split: option.splits)
qed

lemma fallback_entity_parsing_trimmed: "trimmed_lists (fallback_entity_parsing raw)"
proof -
  have "trimmed_lists (fst st) \<Longrightarrow> trimmed_lists (fst (foldl fallback_entity_step st ls))"
    for st ls
    by (induction ls arbitrary: st) (simp_all add: fallback_entity_step_trimmed)
  from this [of "([], None)"] show ?thesis
    by (simp add: fallback_entity_parsing_def trimmed_lists_def)
qed

text \<open>
  Claim C8 asks that every per-category list of the entity map is free of duplicates,
  trimmed, made of strings longer than one character, and at most 20 long, on the strict
  path and on the fallback path alike.  The strict path does this
  (\<open>parse_entity_strict_clean\<close>); the fallback path trims and checks the length
  (\<open>fallback_entity_parsing_trimmed\<close>) but neither removes duplicates nor cuts the
  list: the response below, which is not JSON, gives the same entity twice.
\<close>

theorem fallback_entity_parsing_duplicates:
  "parse_entity_response remdups (loads_of []) ''PERSONS:\<newline>- Bob\<newline>- Bob''
     = Inr [(''PERSONS'', [''Bob'', ''Bob''])]
   \<and> \<not> clean_entity_list [''Bob'', ''Bob'']"
  by code_simp

section \<open>Properties of the highlighter\<close>











section \<open>Properties of the pipeline\<close>

lemma extract_step_empty:
  assumes "extracted_text (extract_document_text env path) = []"
  shows "extract_step env opts path r =
           (if option_get True (opt_extract_text opts)
            then Inl (r\<lparr>text_extraction := Some (extract_document_text env path),
                        status := ''failed'',
                        error := Some ''No text could be extracted from document''\<rparr>)
            else Inr (None, r))"
  using assms by (simp add: extract_step_def Let_def)

lemma extract_step_text:
  assumes "extracted_text (extract_document_text env path) \<noteq> []"
    and "option_get True (opt_extract_text opts)"
  shows "extract_step env opts path r =
           Inr (Some (extract_document_text env path),
                r\<lparr>text_extraction := Some (extract_document_text env path)\<rparr>)"
  using assms by (simp add: extract_step_def Let_def)

lemma extract_step_disabled:
  assumes "\<not> option_get True (opt_extract_text opts)"
  shows "extract_step env opts path r = Inr (None, r)"
  using assms by (simp add: extract_step_def)

lemma enhanced_try_empty:
  assumes "extracted_text (extract_document_text env path) = []"
  shows "enhanced_process_try env opts path =
           (if \<not> validate_file env path then Inl (ValueError (''Invalid file: '' @ path))
            else if option_get True (opt_extract_text opts)
            then Inr ((initial_results opts path)
                        \<lparr>text_extraction := Some (extract_document_text env path),
                         status := ''failed'',
                         error := Some ''No text could be extracted from document''\<rparr>)
            else Inl (UnboundLocalError ''text_data''))"
  by (simp add: enhanced_process_try_def extract_step_empty [OF assms])

lemma process_try_empty:
  assumes "extracted_text (extract_document_text env path) = []"
  shows "process_try env opts path =
           (if \<not> validate_file env path then Inl (ValueError (''Invalid file: '' @ path))
            else if option_get True (opt_extract_text opts)
            then Inr ((initial_results opts path)
                        \<lparr>text_extraction := Some (extract_document_text env path),
                         status := ''failed'',
                         error := Some ''No text could be extracted from document''\<rparr>)
            else Inl (UnboundLocalError ''text_data''))"
  by (simp add: process_try_def extract_step_empty [OF assms])

text \<open>
  Claim C4: when text extraction yields no text, \<open>process_document\<close> returns a result
  with status \<open>failed\<close> and an error message, and no stage field is populated.
\<close>

theorem extraction_failure_is_fatal:
  assumes "extracted_text (extract_document_text env path) = []"
  shows "status (enhanced_process_document env given path) = ''failed''
       \<and> error (enhanced_process_document env given path) \<noteq> None
       \<and> no_stage_output (enhanced_process_document env given path)"
  by (simp add: enhanced_process_document_def Let_def enhanced_try_empty [OF assms]
        no_stage_output_def failed_results_def initial_results_def)

theorem extraction_failure_is_fatal_witness:
  "extracted_text (extract_document_text demo_env ''scan.pdf'') = []
   \<and> status (enhanced_process_document demo_env None ''scan.pdf'') = ''failed''
   \<and> error (enhanced_process_document demo_env None ''scan.pdf'') \<noteq> None
   \<and> no_stage_output (enhanced_process_document demo_env None ''scan.pdf'')"
proof -
  have h: "extracted_text (extract_document_text demo_env ''scan.pdf'') = []"
    by (simp add: demo_env_def)
  from extraction_failure_is_fatal [OF h, of None] h show ?thesis by simp
qed

text \<open>
  Claim C10: with the option \<open>extract_text\<close> set to \<open>False\<close>, \<open>process_document\<close>
  returns a result with status \<open>failed\<close> whatever the other options are: the read of
  the unbound \<open>text_data\<close> raises (unless the file was already rejected), the handler
  records the message, and no stage runs.  The same holds for the processor of
  document\_processor.py.
\<close>

theorem extraction_disabled_fails:
  assumes "opt_extract_text opts = Some False"
  shows "status (enhanced_process_document env (Some opts) path) = ''failed''
       \<and> error (enhanced_process_document env (Some opts) path)
           = Some (if validate_file env path
                   then exception_str (UnboundLocalError ''text_data'')
                   else ''Invalid file: '' @ path)
       \<and> no_stage_output (enhanced_process_document env (Some opts) path)
       \<and> status (process_document env (Some opts) path) = ''failed''
       \<and> error (process_document env (Some opts) path)
           = Some (if validate_file env path
                   then exception_str (UnboundLocalError ''text_data'')
                   else ''Invalid file: '' @ path)
       \<and> no_stage_output (process_document env (Some opts) path)"
proof -
  have d: "\<not> option_get True (opt_extract_text opts)"
    using assms by (simp add: option_get_def)
  show ?thesis
    by (simp add: enhanced_process_document_def process_document_def
          enhanced_process_try_def process_try_def extract_step_disabled [OF d]
          failed_results_def no_stage_output_def)
qed

theorem extraction_disabled_fails_witness:
  "opt_extract_text (enhanced_default_options\<lparr>opt_extract_text := Some False\<rparr>) = Some False
   \<and> validate_file demo_env ''contract.txt''
   \<and> status (enhanced_process_document demo_env
               (Some (enhanced_default_options\<lparr>opt_extract_text := Some False\<rparr>))
               ''contract.txt'') = ''failed''
   \<and> error (enhanced_process_document demo_env
               (Some (enhanced_default_options\<lparr>opt_extract_text := Some False\<rparr>))
               ''contract.txt'') = Some (exception_str (UnboundLocalError ''text_data''))
   \<and> no_stage_output (enhanced_process_document demo_env
               (Some (enhanced_default_options\<lparr>opt_extract_text := Some False\<rparr>))
               ''contract.txt'')
   \<and> status (process_document demo_env
               (Some (enhanced_default_options\<lparr>opt_extract_text := Some False\<rparr>))
               ''contract.txt'') = ''failed''"
proof -
  have h: "opt_extract_text (enhanced_default_options\<lparr>opt_extract_text := Some False\<rparr>)
             = Some False"
    by simp
  have v: "validate_file demo_env ''contract.txt''"
    by (simp add: validate_file_def demo_env_def)
  from extraction_disabled_fails [OF h, of demo_env "''contract.txt''"] h v
  show ?thesis by simp
qed









lemma process_try_text:
  assumes "validate_file env path" and "option_get True (opt_extract_text opts)"
    and "extracted_text (extract_document_text env path) \<noteq> []"
  shows "process_try env opts path =
           Inr ((relationships_stage env opts (extracted_text (extract_document_text env path))
                  (risks_stage env opts (extracted_text (extract_document_text env path))
                    (bullet_points_stage env opts (extracted_text (extract_document_text env path))
                      (entities_stage env opts (extracted_text (extract_document_text env path))
                        (summary_stage env opts (extracted_text (extract_document_text env path))
                          ((initial_results opts path)
                             \<lparr>text_extraction := Some (extract_document_text env path)\<rparr>))))))
                \<lparr>status := ''completed''\<rparr>)"
  using assms
  by (simp add: process_try_def extract_step_text [OF assms(3) assms(2)] Let_def)



subsection \<open>The batch\<close>

lemma process_document_completed:
  assumes "opts = (case given of None \<Rightarrow> default_options | Some d \<Rightarrow> d)"
    and "validate_file env path" and "option_get True (opt_extract_text opts)"
    and "extracted_text (extract_document_text env path) \<noteq> []"
  shows "status (process_document env given path) = ''completed''"
  using assms(1) process_try_text [OF assms(2,3,4)]
  by (simp add: process_document_def Let_def)

lemma process_document_failed:
  assumes "extracted_text (extract_document_text env path) = []"
  shows "status (process_document env given path) = ''failed''
       \<and> error (process_document env given path) \<noteq> None
       \<and> no_stage_output (process_document env given path)"
  by (simp add: process_document_def Let_def process_try_empty [OF assms]
        no_stage_output_def failed_results_def initial_results_def)

lemma batch_fold:
  "foldl (batch_step env given) st ps = st' \<Longrightarrow>
     processed_successfully (fst st')
       = processed_successfully (fst st)
         + length (filter (\<lambda>p. status (process_document env given p) = ''completed'') ps)
   \<and> failed (fst st')
       = failed (fst st)
         + length (filter (\<lambda>p. status (process_document env given p) \<noteq> ''completed'') ps)
   \<and> total_documents (fst st') = total_documents (fst st)
   \<and> summary_comparison (fst st') = summary_comparison (fst st)
   \<and> individual_results (fst st')
       = foldl (\<lambda>al p. AList.update p (process_document env given p) al)
           (individual_results (fst st)) ps
   \<and> snd st'
       = snd st @ map (process_document env given)
                    (filter (\<lambda>p. status (process_document env given p) = ''completed'') ps)"
proof (induction ps arbitrary: st)
  case Nil
  then show ?case by simp
next
  case (Cons p ps)
  from Cons.prems have "foldl (batch_step env given) (batch_step env given st p) ps = st'"
    by simp
  from Cons.IH [OF this] show ?case
    by (simp add: batch_step_def Let_def)
qed

lemma fold_update_keys:
  "fst ` set (foldl (\<lambda>al p. AList.update p (f p) al) al ps) = fst ` set al \<union> set ps"
  by (induction ps arbitrary: al) (auto simp: dom_update)

lemma fold_update_distinct:
  "distinct (map fst al) \<Longrightarrow> distinct (map fst (foldl (\<lambda>al p. AList.update p (f p) al) al ps))"
  by (induction ps arbitrary: al) (auto simp: distinct_update)

lemma fold_update_map_of:
  "p \<in> set ps \<Longrightarrow> map_of (foldl (\<lambda>al p. AList.update p (f p) al) al ps) p = Some (f p)"
proof (induction ps rule: rev_induct)
  case Nil
  then show ?case by simp
next
  case (snoc q ps)
  then show ?case by (cases "p = q") (auto simp: update_conv')
qed

lemma fold_update_entries:
  "length (foldl (\<lambda>al p. AList.update p (f p) al) [] ps) = card (set ps)"
proof -
  let ?al = "foldl (\<lambda>al p. AList.update p (f p) al) [] ps"
  have "distinct (map fst ?al)" by (rule fold_update_distinct) simp
  then have "card (set (map fst ?al)) = length (map fst ?al)"
    by (rule distinct_card)
  moreover have "set (map fst ?al) = set ps"
    using fold_update_keys [of f "[]" ps] by simp
  ultimately show ?thesis by simp
qed

lemma filter_all_but_one:
  assumes "i < length ps" and "\<not> P (ps ! i)" and "\<forall>j<length ps. j \<noteq> i \<longrightarrow> P (ps ! j)"
  shows "length (filter P ps) = length ps - 1 \<and> length (filter (\<lambda>p. \<not> P p) ps) = 1"
proof -
  have a: "\<forall>p\<in>set (take i ps). P p"
  proof
    fix p assume "p \<in> set (take i ps)"
    then obtain j where "j < i" "p = ps ! j"
      using assms(1) by (auto simp: in_set_conv_nth)
    with assms show "P p" by auto
  qed
  have b: "\<forall>p\<in>set (drop (Suc i) ps). P p"
  proof
    fix p assume "p \<in> set (drop (Suc i) ps)"
    then obtain j where "j < length ps - Suc i" "p = ps ! (Suc i + j)"
      by (auto simp: in_set_conv_nth)
    with assms show "P p" by auto
  qed
  have s: "ps = take i ps @ ps ! i # drop (Suc i) ps"
    using assms(1) by (rule id_take_nth_drop)
  have "filter P ps = filter P (take i ps) @ filter P (ps ! i # drop (Suc i) ps)"
    by (subst s) (simp only: filter_append)
  also have "\<dots> = take i ps @ drop (Suc i) ps"
    using a b assms(2) by (simp add: filter_id_conv)
  finally have 1: "length (filter P ps) = length ps - 1"
    using assms(1) by simp
  have "length (filter P ps) + length (filter (\<lambda>p. \<not> P p) ps) = length ps"
    by (rule sum_length_filter_compl)
  with 1 assms(1) show ?thesis by simp
qed

text \<open>
  Claim C7, as stated, fails when a path occurs twice in the batch: \<open>individual_results\<close>
  is a dict keyed by file path, so the second run of a path takes the place of the
  first.  In the batch below exactly one extraction fails, the counters are 1 and 2,
  but the dict has 2 entries for the 3 paths.
\<close>

theorem batch_repeated_path_counterexample:
  "length [''contract.txt'', ''contract.txt'', ''scan.pdf''] = 3
   \<and> extracted_text (extract_document_text demo_env ''contract.txt'') \<noteq> []
   \<and> extracted_text (extract_document_text demo_env ''scan.pdf'') = []
   \<and> failed (process_multiple_documents demo_env None
               [''contract.txt'', ''contract.txt'', ''scan.pdf'']) = 1
   \<and> processed_successfully (process_multiple_documents demo_env None
               [''contract.txt'', ''contract.txt'', ''scan.pdf'']) = 2
   \<and> length (individual_results (process_multiple_documents demo_env None
               [''contract.txt'', ''contract.txt'', ''scan.pdf''])) = 2"
proof -
  let ?ps = "[''contract.txt'', ''contract.txt'', ''scan.pdf'']"
  obtain st where st: "foldl (batch_step demo_env None)
      (\<lparr>total_documents = length ?ps, processed_successfully = 0, failed = 0,
        individual_results = [], summary_comparison = None\<rparr>, []) ?ps = st"
    by blast
  have x: "extracted_text (extract_document_text demo_env ''contract.txt'') \<noteq> []"
    "extracted_text (extract_document_text demo_env ''scan.pdf'') = []"
    by (simp_all add: demo_env_def nda_document_def)
  have v: "validate_file demo_env ''contract.txt''"
    by (simp add: validate_file_def demo_env_def)
  have o: "option_get True (opt_extract_text default_options)"
    by (simp add: option_get_def default_options_def)
  have c: "status (process_document demo_env None ''contract.txt'') = ''completed''"
    using process_document_completed [of default_options None demo_env "''contract.txt''"]
      v o x by simp
  have f: "status (process_document demo_env None ''scan.pdf'') = ''failed''"
    using process_document_failed [OF x(2), of None] by simp
  have b: "process_multiple_documents demo_env None ?ps = fst st"
    unfolding process_multiple_documents_def Let_def st by simp
  from batch_fold [OF st] c f
  have "failed (fst st) = 1" "processed_successfully (fst st) = 2"
    "individual_results (fst st)
       = foldl (\<lambda>al p. AList.update p (process_document demo_env None p) al) [] ?ps"
    by simp_all
  moreover have "card (set ?ps) = 2" by simp
  ultimately show ?thesis
    using fold_update_entries [of "process_document demo_env None" ?ps] x b
    by simp
qed

text \<open>
  Claim C7, amended: in a batch of \<open>N\<close> file paths, all accepted, of which exactly one
  yields no text, the failed counter is 1 and \<open>processed_successfully\<close> is \<open>N - 1\<close>; the
  failing document's own result records the failure, every other path has a result
  with status \<open>completed\<close>, and \<open>individual_results\<close> has one entry per distinct path,
  hence \<open>N\<close> entries when the paths are pairwise distinct.
\<close>

theorem batch_isolates_one_failure:
  assumes "opts = (case given of None \<Rightarrow> default_options | Some d \<Rightarrow> d)"
    and "option_get True (opt_extract_text opts)"
    and "\<forall>p\<in>set ps. validate_file env p"
    and "i < length ps"
    and "extracted_text (extract_document_text env (ps ! i)) = []"
    and "\<forall>j<length ps. j \<noteq> i \<longrightarrow> extracted_text (extract_document_text env (ps ! j)) \<noteq> []"
    and "b = process_multiple_documents env given ps"
  shows "total_documents b = length ps \<and> failed b = 1
       \<and> processed_successfully b = length ps - 1
       \<and> (\<exists>r. map_of (individual_results b) (ps ! i) = Some r
              \<and> status r = ''failed'' \<and> error r \<noteq> None)
       \<and> (\<forall>j<length ps. j \<noteq> i \<longrightarrow>
             (\<exists>r. map_of (individual_results b) (ps ! j) = Some r \<and> status r = ''completed''))
       \<and> length (individual_results b) = card (set ps)
       \<and> (distinct ps \<longrightarrow> length (individual_results b) = length ps)"
proof -
  let ?P = "\<lambda>p. status (process_document env given p) = ''completed''"
  obtain st where st: "foldl (batch_step env given)
      (\<lparr>total_documents = length ps, processed_successfully = 0, failed = 0,
        individual_results = [], summary_comparison = None\<rparr>, []) ps = st"
    by blast
  have fields: "total_documents b = total_documents (fst st)"
    "failed b = failed (fst st)"
    "processed_successfully b = processed_successfully (fst st)"
    "individual_results b = individual_results (fst st)"
    unfolding assms(7) process_multiple_documents_def Let_def st by simp_all
  have bad: "\<not> ?P (ps ! i)"
    using process_document_failed [OF assms(5), of given] by simp
  have good: "\<forall>j<length ps. j \<noteq> i \<longrightarrow> ?P (ps ! j)"
  proof (intro allI impI)
    fix j assume j: "j < length ps" "j \<noteq> i"
    then have "validate_file env (ps ! j)" using assms(3) by simp
    moreover have "extracted_text (extract_document_text env (ps ! j)) \<noteq> []"
      using assms(6) j by simp
    ultimately show "?P (ps ! j)"
      using process_document_completed [OF assms(1) _ assms(2)] by simp
  qed
  from filter_all_but_one [of i ps ?P, OF assms(4) bad good]
  have counts: "length (filter ?P ps) = length ps - 1"
    "length (filter (\<lambda>p. \<not> ?P p) ps) = 1"
    by simp_all
  from batch_fold [OF st] counts
  have 1: "total_documents (fst st) = length ps" "failed (fst st) = 1"
    "processed_successfully (fst st) = length ps - 1"
    and ir: "individual_results (fst st)
       = foldl (\<lambda>al p. AList.update p (process_document env given p) al) [] ps"
    by simp_all
  have look: "map_of (individual_results b) (ps ! j) = Some (process_document env given (ps ! j))"
    if "j < length ps" for j
    using that fold_update_map_of [of "ps ! j" ps "process_document env given" "[]"]
    by (simp add: fields ir)
  have 2: "\<exists>r. map_of (individual_results b) (ps ! i) = Some r
              \<and> status r = ''failed'' \<and> error r \<noteq> None"
    using look [OF assms(4)] process_document_failed [OF assms(5), of given] by simp
  have 3: "\<forall>j<length ps. j \<noteq> i \<longrightarrow>
             (\<exists>r. map_of (individual_results b) (ps ! j) = Some r \<and> status r = ''completed'')"
    using look good by simp
  have 4: "length (individual_results b) = card (set ps)"
    using fold_update_entries [of "process_document env given" ps] by (simp add: fields ir)
  have 5: "distinct ps \<longrightarrow> length (individual_results b) = length ps"
    using 4 by (simp add: distinct_card)
  show ?thesis using fields 1 2 3 4 5 by simp
qed

theorem batch_isolates_one_failure_witness:
  "option_get True (opt_extract_text default_options)
   \<and> validate_file demo_env ''contract.txt'' \<and> validate_file demo_env ''scan.pdf''
   \<and> validate_file demo_env ''lease.txt''
   \<and> extracted_text (extract_document_text demo_env ''scan.pdf'') = []
   \<and> extracted_text (extract_document_text demo_env ''contract.txt'') \<noteq> []
   \<and> extracted_text (extract_document_text demo_env ''lease.txt'') \<noteq> []
   \<and> distinct [''contract.txt'', ''scan.pdf'', ''lease.txt'']
   \<and> failed (process_multiple_documents demo_env None
               [''contract.txt'', ''scan.pdf'', ''lease.txt'']) = 1
   \<and> processed_successfully (process_multiple_documents demo_env None
               [''contract.txt'', ''scan.pdf'', ''lease.txt'']) = 2
   \<and> length (individual_results (process_multiple_documents demo_env None
               [''contract.txt'', ''scan.pdf'', ''lease.txt''])) = 3"
proof -
  let ?ps = "[''contract.txt'', ''scan.pdf'', ''lease.txt'']"
  have o: "option_get True (opt_extract_text default_options)"
    by (simp add: option_get_def default_options_def)
  have v: "\<forall>p\<in>set ?ps. validate_file demo_env p"
    by (simp add: validate_file_def demo_env_def)
  have x: "extracted_text (extract_document_text demo_env ''scan.pdf'') = []"
    "extracted_text (extract_document_text demo_env ''contract.txt'') \<noteq> []"
    "extracted_text (extract_document_text demo_env ''lease.txt'') \<noteq> []"
    by (simp_all add: demo_env_def nda_document_def)
  have i: "(1::nat) < length ?ps" "?ps ! 1 = ''scan.pdf''"
    by simp_all
  have others: "\<forall>j<length ?ps. j \<noteq> 1 \<longrightarrow>
                  extracted_text (extract_document_text demo_env (?ps ! j)) \<noteq> []"
  proof (intro allI impI)
    fix j :: nat assume "j < length ?ps" "j \<noteq> 1"
    then have "j = 0 \<or> j = 2" by auto
    then show "extracted_text (extract_document_text demo_env (?ps ! j)) \<noteq> []"
      using x by auto
  qed
  have d: "distinct ?ps" by simp
  from batch_isolates_one_failure
         [where opts = default_options and given = None and env = demo_env and ps = ?ps
            and i = 1 and b = "process_multiple_documents demo_env None ?ps"]
       o v i x others d
  show ?thesis by simp
qed

end
